theory Spec2Isabelle
  imports Main "HOL-Library.AList"
begin

text \<open>
  The Napcat plugin bridges a chat-bot host to a OneBot v11 gateway. Two source files
  carry its behaviour: the connection (\<open>createOneBotConnection\<close>: socket lifecycle,
  reconnection, request and response correlation, HTTP fallback) and the channel (message
  codec, access policy, reply delivery). Each is embedded here function by function and
  the properties the specification states of them are proved of the embedding.
\<close>

section \<open>JavaScript values used by both layers\<close>

text \<open>
  Strings are \<open>string\<close>: one \<open>char\<close> stands for one UTF-16 code unit, so the model covers
  the code units below 256. A thrown \<open>Error\<close> is its message.
\<close>

datatype js_error = Error string

fun show_nat :: "nat \<Rightarrow> string" where
  "show_nat n =
     (if n < 10 then [char_of (48 + n)]
      else show_nat (n div 10) @ [char_of (48 + n mod 10)])"

declare show_nat.simps [simp del]

definition show_int :: "int \<Rightarrow> string" where
  "show_int i = (if i < 0 then CHR ''-'' # show_nat (nat (- i)) else show_nat (nat i))"

text \<open>\<open>if (x)\<close> on an optional string: \<open>undefined\<close> and the empty string are falsy.\<close>

definition truthy :: "string option \<Rightarrow> bool" where
  "truthy u = (case u of None \<Rightarrow> False | Some s \<Rightarrow> s \<noteq> [])"

section \<open>Transport: \<open>createOneBotConnection\<close>\<close>

text \<open>
  The connection is a closure over \<open>pending\<close>, \<open>ws\<close>, \<open>stopped\<close>, \<open>echoCounter\<close> and
  \<open>reconnectAttempts\<close>. Its handlers run to completion one at a time, so each handler is a
  function from the state to the new state and the effects it performs, in order.
  Promise continuations (the resumption of \<open>sendAction\<close> after its \<open>await\<close>) run as
  microtasks once the handler has returned: their effects follow the handler's own.

  Counters are \<open>nat\<close>: the source's doubles agree with them below \<open>2^53\<close>, and
  \<open>Math.min(1000 * 2 ** n, 15000)\<close> is 15000 once the power overflows to infinity.
  The socket URL is taken to be one that \<open>new WebSocket\<close> accepts; how the access token
  is appended to a URL is left to the effect that carries both.
\<close>

datatype ready_state = CONNECTING | OPEN | CLOSING | CLOSED

text \<open>
  The \<open>echo\<close> member of a received object: \<open>null\<close>, a string, or any other value, which
  carries the text \<open>String\<close> gives for it.
\<close>

datatype echo_value = EchoNull | EchoStr string | EchoOther string

record payload =
  has_post_type :: bool
  echo_field :: "echo_value option"
  content :: string

text \<open>What \<open>JSON.parse\<close> makes of a frame: it throws, or gives a non-object, or an object.\<close>

datatype frame = Malformed string | NonObject | Object payload

text \<open>
  A pending entry holds \<open>resolve\<close>, \<open>reject\<close> and \<open>timeout\<close>. The two continuations belong
  to the promise \<open>result\<close> of \<open>sendActionWs\<close>; what resumes when it settles is the \<open>await\<close>
  in \<open>sendAction\<close>, which has captured the caller's promise, \<open>action\<close> and \<open>params\<close>.
  \<open>awaited\<close> is false when \<open>ws.send\<close> threw: \<open>result\<close> was then never returned. The timer
  is identified by the entry's echo token.
\<close>

record pending_entry =
  caller :: nat
  req_action :: string
  req_params :: "string option"
  awaited :: bool

record options =
  wsUrl :: string
  httpUrl :: "string option"
  accessToken :: "string option"
  onDisconnected_stops :: nat

text \<open>
  \<open>onDisconnected_stops\<close> is how many times the \<open>onDisconnected\<close> callback calls \<open>stop()\<close>
  of the connection it belongs to (0 for the callback this repository installs).
\<close>

record conn =
  pending :: "(string \<times> pending_entry) list"
  ws :: "ready_state option"
  stopped :: bool
  echoCounter :: nat
  reconnectAttempts :: nat

text \<open>What a \<open>fetch\<close> of the HTTP transport comes to, decided by the environment.\<close>

datatype http_outcome =
    UrlInvalid js_error
  | FetchThrows js_error
  | HttpStatus nat
  | HttpOk payload

type_synonym fetcher = "nat \<Rightarrow> string \<Rightarrow> string option \<Rightarrow> http_outcome"

datatype conn_effect =
    WsCreate string "string option"
  | WsSend string "string option" string
  | WsClose
  | SetTimer string nat
  | ClearTimer string
  | ScheduleConnect nat
  | EntryResolve string payload
  | EntryReject string js_error
  | HttpPost string string "string option" string
  | Return nat "js_error + payload"
  | OnEvent payload
  | OnConnected
  | OnDisconnected
  | OnError
  | LogWarn string

definition REQUEST_TIMEOUT_MS :: nat where "REQUEST_TIMEOUT_MS = 10000"
definition RECONNECT_BASE_MS :: nat where "RECONNECT_BASE_MS = 1000"
definition RECONNECT_MAX_MS :: nat where "RECONNECT_MAX_MS = 15000"

definition isConnected :: "conn \<Rightarrow> bool" where
  "isConnected s = (ws s = Some OPEN)"

text \<open>
  \<open>sendActionHttp\<close>. The request and its answer are one step here: the fetch touches no
  state of the connection.
\<close>

definition sendActionHttp ::
  "options \<Rightarrow> fetcher \<Rightarrow> nat \<Rightarrow> string \<Rightarrow> string option \<Rightarrow> conn_effect list" where
  "sendActionHttp opts fetch c a p =
     (if \<not> truthy (httpUrl opts) then [Return c (Inl (Error ''HTTP fallback not configured''))]
      else
        (case fetch c a p of
           UrlInvalid e \<Rightarrow> [Return c (Inl e)]
         | FetchThrows e \<Rightarrow>
             [HttpPost (the (httpUrl opts)) a (accessToken opts) (case p of None \<Rightarrow> ''{}'' | Some j \<Rightarrow> j),
              Return c (Inl e)]
         | HttpStatus n \<Rightarrow>
             [HttpPost (the (httpUrl opts)) a (accessToken opts) (case p of None \<Rightarrow> ''{}'' | Some j \<Rightarrow> j),
              Return c (Inl (Error (''OneBot HTTP error ('' @ a @ ''): '' @ show_nat n)))]
         | HttpOk r \<Rightarrow>
             [HttpPost (the (httpUrl opts)) a (accessToken opts) (case p of None \<Rightarrow> ''{}'' | Some j \<Rightarrow> j),
              Return c (Inr r)]))"

text \<open>The \<open>catch\<close> block of \<open>sendAction\<close>.\<close>

definition sendAction_catch ::
  "options \<Rightarrow> fetcher \<Rightarrow> nat \<Rightarrow> string \<Rightarrow> string option \<Rightarrow> js_error \<Rightarrow> conn_effect list" where
  "sendAction_catch opts fetch c a p err =
     LogWarn (''napcat: ws send failed ('' @ a @ ''), falling back to HTTP'') #
     (if truthy (httpUrl opts) then sendActionHttp opts fetch c a p else [Return c (Inl err)])"

text \<open>What runs when the promise of a pending entry settles.\<close>

definition resume ::
  "options \<Rightarrow> fetcher \<Rightarrow> pending_entry \<times> (js_error + payload) \<Rightarrow> conn_effect list" where
  "resume opts fetch x =
     (case x of (ent, outcome) \<Rightarrow>
        if \<not> awaited ent then []
        else
          (case outcome of
             Inr v \<Rightarrow> [Return (caller ent) (Inr v)]
           | Inl err \<Rightarrow>
               sendAction_catch opts fetch (caller ent) (req_action ent) (req_params ent) err))"

text \<open>
  A handler gives the new state, its own effects, and the entries it settled; the
  continuations of those run after it.
\<close>

type_synonym handled = "conn \<times> conn_effect list \<times> (pending_entry \<times> (js_error + payload)) list"

fun cleanup_loop ::
  "string \<Rightarrow> (string \<times> pending_entry) list \<Rightarrow>
     conn_effect list \<times> (pending_entry \<times> (js_error + payload)) list" where
  "cleanup_loop reason [] = ([], [])"
| "cleanup_loop reason ((echo, entry) # rest) =
     (case cleanup_loop reason rest of
        (es, settled) \<Rightarrow>
          (ClearTimer echo # EntryReject echo (Error reason) # es,
           (entry, Inl (Error reason)) # settled))"

definition cleanupPending :: "string \<Rightarrow> conn \<Rightarrow> handled" where
  "cleanupPending reason s =
     (case cleanup_loop reason (pending s) of
        (es, settled) \<Rightarrow> (s\<lparr>pending := []\<rparr>, es, settled))"

definition connect :: "options \<Rightarrow> conn \<Rightarrow> handled" where
  "connect opts s =
     (if stopped s then (s, [], [])
      else (s\<lparr>ws := Some CONNECTING\<rparr>, [WsCreate (wsUrl opts) (accessToken opts)], []))"

definition stop :: "conn \<Rightarrow> handled" where
  "stop s =
     (case cleanupPending ''WebSocket stopped'' (s\<lparr>stopped := True\<rparr>) of
        (s1, es, settled) \<Rightarrow>
          (s1\<lparr>ws := None\<rparr>, es @ (if ws s1 \<noteq> None then [WsClose] else []), settled))"

fun stop_times :: "nat \<Rightarrow> conn \<Rightarrow> handled" where
  "stop_times 0 s = (s, [], [])"
| "stop_times (Suc k) s =
     (case stop s of
        (s1, es1, st1) \<Rightarrow>
          (case stop_times k s1 of (s2, es2, st2) \<Rightarrow> (s2, es1 @ es2, st1 @ st2)))"

definition on_open :: "conn \<Rightarrow> handled" where
  "on_open s =
     (s\<lparr>ws := map_option (\<lambda>_. OPEN) (ws s), reconnectAttempts := 0\<rparr>, [OnConnected], [])"

definition isEventPayload :: "frame \<Rightarrow> bool" where
  "isEventPayload f = (case f of Object p \<Rightarrow> has_post_type p | _ \<Rightarrow> False)"

definition echo_String :: "echo_value \<Rightarrow> string" where
  "echo_String v = (case v of EchoNull \<Rightarrow> [] | EchoStr t \<Rightarrow> t | EchoOther t \<Rightarrow> t)"

definition on_message :: "frame \<Rightarrow> conn \<Rightarrow> handled" where
  "on_message f s =
     (case f of
        Malformed err \<Rightarrow>
          (s, [LogWarn (''napcat: failed to parse websocket payload: '' @ err)], [])
      | NonObject \<Rightarrow> (s, [], [])
      | Object p \<Rightarrow>
          if isEventPayload f then (s, [OnEvent p], [])
          else
            (case echo_field p of
               None \<Rightarrow> (s, [], [])
             | Some v \<Rightarrow>
                 (case map_of (pending s) (echo_String v) of
                    None \<Rightarrow> (s, [], [])
                  | Some pendingEntry \<Rightarrow>
                      (s\<lparr>pending := AList.delete (echo_String v) (pending s)\<rparr>,
                       [ClearTimer (echo_String v), EntryResolve (echo_String v) p],
                       [(pendingEntry, Inr p)]))))"

definition on_close :: "options \<Rightarrow> conn \<Rightarrow> handled" where
  "on_close opts s =
     (case stop_times (onDisconnected_stops opts) (s\<lparr>ws := None\<rparr>) of
        (s1, es1, st1) \<Rightarrow>
          (case cleanupPending ''WebSocket closed'' s1 of
             (s2, es2, st2) \<Rightarrow>
               if stopped s2 then (s2, OnDisconnected # es1 @ es2, st1 @ st2)
               else
                 (s2\<lparr>reconnectAttempts := reconnectAttempts s2 + 1\<rparr>,
                  OnDisconnected # es1 @ es2 @
                    [ScheduleConnect
                       (min (RECONNECT_BASE_MS * 2 ^ reconnectAttempts s2) RECONNECT_MAX_MS)],
                  st1 @ st2)))"

text \<open>
  The timeout callback of \<open>sendActionWs\<close>. A timer that was cleared never fires, and an
  entry leaves \<open>pending\<close> only where its timer is cleared or has fired, so the callback
  runs only for a token still pending.
\<close>

definition on_timeout :: "string \<Rightarrow> conn \<Rightarrow> handled" where
  "on_timeout echo s =
     (case map_of (pending s) echo of
        None \<Rightarrow> (s, [], [])
      | Some entry \<Rightarrow>
          (s\<lparr>pending := AList.delete echo (pending s)\<rparr>,
           [EntryReject echo (Error (''OneBot request timeout: '' @ req_action entry))],
           [(entry, Inl (Error (''OneBot request timeout: '' @ req_action entry)))]))"

text \<open>
  \<open>sendActionWs\<close> up to its \<open>return\<close>: \<open>thrown\<close> is what \<open>JSON.stringify\<close> or \<open>ws.send\<close>
  throws, if they do. The result is the error thrown, or the token whose entry the
  caller now awaits.
\<close>

definition sendActionWs ::
  "nat \<Rightarrow> string \<Rightarrow> string option \<Rightarrow> js_error option \<Rightarrow> conn \<Rightarrow>
     conn \<times> conn_effect list \<times> (js_error + string)" where
  "sendActionWs c a p thrown s =
     (if ws s \<noteq> Some OPEN then (s, [], Inl (Error ''WebSocket not connected''))
      else
        (case thrown of
           None \<Rightarrow>
             (s\<lparr>echoCounter := echoCounter s + 1,
                pending := AList.update (show_nat (echoCounter s + 1))
                  \<lparr>caller = c, req_action = a, req_params = p, awaited = True\<rparr> (pending s)\<rparr>,
              [SetTimer (show_nat (echoCounter s + 1)) REQUEST_TIMEOUT_MS,
               WsSend a p (show_nat (echoCounter s + 1))],
              Inr (show_nat (echoCounter s + 1)))
         | Some err \<Rightarrow>
             (s\<lparr>echoCounter := echoCounter s + 1,
                pending := AList.update (show_nat (echoCounter s + 1))
                  \<lparr>caller = c, req_action = a, req_params = p, awaited = False\<rparr> (pending s)\<rparr>,
              [SetTimer (show_nat (echoCounter s + 1)) REQUEST_TIMEOUT_MS],
              Inl err)))"

definition sendAction ::
  "options \<Rightarrow> fetcher \<Rightarrow> nat \<Rightarrow> string \<Rightarrow> string option \<Rightarrow> js_error option \<Rightarrow> conn \<Rightarrow>
     conn \<times> conn_effect list" where
  "sendAction opts fetch c a p thrown s =
     (if isConnected s then
        (case sendActionWs c a p thrown s of
           (s1, es, Inr echo) \<Rightarrow> (s1, es)
         | (s1, es, Inl err) \<Rightarrow> (s1, es @ sendAction_catch opts fetch c a p err))
      else (s, sendActionHttp opts fetch c a p))"

datatype conn_event =
    EvOpen
  | EvMessage frame
  | EvError
  | EvClosing
  | EvClose
  | EvTimeout string
  | EvReconnect
  | CallSendAction nat string "string option" "js_error option"
  | CallStop

definition finish :: "options \<Rightarrow> fetcher \<Rightarrow> handled \<Rightarrow> conn \<times> conn_effect list" where
  "finish opts fetch h =
     (case h of (s, es, settled) \<Rightarrow> (s, es @ concat (map (resume opts fetch) settled)))"

fun step :: "options \<Rightarrow> fetcher \<Rightarrow> conn_event \<Rightarrow> conn \<Rightarrow> conn \<times> conn_effect list" where
  "step opts fetch EvOpen s = finish opts fetch (on_open s)"
| "step opts fetch (EvMessage f) s = finish opts fetch (on_message f s)"
| "step opts fetch EvError s = (s, [OnError])"
| "step opts fetch EvClosing s = (s\<lparr>ws := map_option (\<lambda>_. CLOSING) (ws s)\<rparr>, [])"
| "step opts fetch EvClose s = finish opts fetch (on_close opts s)"
| "step opts fetch (EvTimeout echo) s = finish opts fetch (on_timeout echo s)"
| "step opts fetch EvReconnect s = finish opts fetch (connect opts s)"
| "step opts fetch (CallSendAction c a p thrown) s = sendAction opts fetch c a p thrown s"
| "step opts fetch CallStop s = finish opts fetch (stop s)"

fun run :: "options \<Rightarrow> fetcher \<Rightarrow> conn_event list \<Rightarrow> conn \<Rightarrow> conn \<times> conn_effect list" where
  "run opts fetch [] s = (s, [])"
| "run opts fetch (e # es) s =
     (case step opts fetch e s of
        (s1, out1) \<Rightarrow> (case run opts fetch es s1 of (s2, out2) \<Rightarrow> (s2, out1 @ out2)))"

definition createOneBotConnection :: "options \<Rightarrow> conn \<times> conn_effect list" where
  "createOneBotConnection opts =
     (case connect opts
        \<lparr>pending = [], ws = None, stopped = False, echoCounter = 0, reconnectAttempts = 0\<rparr> of
        (s, es, settled) \<Rightarrow> (s, es))"


subsection \<open>Observations on effect traces, and sample inputs\<close>

text \<open>The delays of the reconnections scheduled in a trace, in order.\<close>

fun schedules :: "conn_effect list \<Rightarrow> nat list" where
  "schedules [] = []"
| "schedules (ScheduleConnect d # es) = d # schedules es"
| "schedules (e # es) = schedules es"

definition opts0 :: options where
  "opts0 = \<lparr>wsUrl = ''ws://h/'', httpUrl = None, accessToken = None, onDisconnected_stops = 0\<rparr>"

definition fetch0 :: fetcher where
  "fetch0 c a p = HttpStatus 500"

definition conn0 :: conn where
  "conn0 = \<lparr>pending = [], ws = Some CONNECTING, stopped = False, echoCounter = 0,
     reconnectAttempts = 3\<rparr>"

text \<open>
  The effects that touch the socket, the timers or a pending entry: none of them may
  follow a \<open>stop()\<close>.
\<close>

fun is_teardown :: "conn_effect \<Rightarrow> bool" where
  "is_teardown (WsCreate u t) = True"
| "is_teardown (WsSend a p e) = True"
| "is_teardown WsClose = True"
| "is_teardown (SetTimer e n) = True"
| "is_teardown (ClearTimer e) = True"
| "is_teardown (ScheduleConnect d) = True"
| "is_teardown (EntryResolve e p) = True"
| "is_teardown (EntryReject e r) = True"
| "is_teardown e = False"

text \<open>The state a connection is in after the events \<open>evs\<close> since its creation.\<close>

definition reached :: "options \<Rightarrow> fetcher \<Rightarrow> conn_event list \<Rightarrow> conn" where
  "reached opts fetch evs = fst (run opts fetch evs (fst (createOneBotConnection opts)))"

definition opts1 :: options where
  "opts1 = \<lparr>wsUrl = ''ws://h/'', httpUrl = Some ''http://h'', accessToken = None,
     onDisconnected_stops = 1\<rparr>"

definition ok_response :: payload where
  "ok_response = \<lparr>has_post_type = False, echo_field = None, content = ''{status:ok}''\<rparr>"

definition fetch1 :: fetcher where
  "fetch1 c a p = HttpOk ok_response"

text \<open>The state every \<open>stop()\<close> leaves behind.\<close>

definition quiet :: "conn \<Rightarrow> bool" where
  "quiet s = (stopped s \<and> pending s = [] \<and> ws s = None)"


section \<open>Channel: strings and identifiers\<close>

text \<open>
  A value read from an untyped object member. \<open>Num\<close> and \<open>Other\<close> carry the text that
  \<open>String\<close> gives for the value, which is all the source ever takes from them.
\<close>

datatype jsval = Undefined | Null | Num string | Str string | Other string

definition nullish :: "jsval \<Rightarrow> bool" where
  "nullish v = (v = Undefined \<or> v = Null)"

definition js_String :: "jsval \<Rightarrow> string" where
  "js_String v =
     (case v of Undefined \<Rightarrow> ''undefined'' | Null \<Rightarrow> ''null''
      | Num t \<Rightarrow> t | Str t \<Rightarrow> t | Other t \<Rightarrow> t)"

text \<open>\<open>typeof v === "string" ? v : ""\<close>\<close>

definition string_or_empty :: "jsval \<Rightarrow> string" where
  "string_or_empty v = (case v of Str t \<Rightarrow> t | _ \<Rightarrow> [])"

text \<open>
  The white space and line terminators that \<open>trim\<close> and \<open>parseInt\<close> skip, among the code
  units below 256: TAB, LF, VT, FF, CR, SP and NBSP.
\<close>

definition isWhiteSpace :: "char \<Rightarrow> bool" where
  "isWhiteSpace c = ((of_char c :: nat) \<in> {9, 10, 11, 12, 13, 32, 160})"

definition trim :: "string \<Rightarrow> string" where
  "trim s = rev (dropWhile isWhiteSpace (rev (dropWhile isWhiteSpace s)))"

definition isDigit :: "char \<Rightarrow> bool" where
  "isDigit c = (48 \<le> (of_char c :: nat) \<and> (of_char c :: nat) \<le> 57)"

definition isAsciiLetter :: "char \<Rightarrow> bool" where
  "isAsciiLetter c =
     ((65 \<le> (of_char c :: nat) \<and> (of_char c :: nat) \<le> 90) \<or>
      (97 \<le> (of_char c :: nat) \<and> (of_char c :: nat) \<le> 122))"

text \<open>
  Matching under the \<open>i\<close> flag (without \<open>u\<close>): an ASCII letter of a pattern matches
  exactly its two cases.
\<close>

definition lower :: "char \<Rightarrow> char" where
  "lower c =
     (if 65 \<le> (of_char c :: nat) \<and> (of_char c :: nat) \<le> 90 then char_of ((of_char c :: nat) + 32)
      else c)"

text \<open>\<open>/^p/i.test(s)\<close> for a literal pattern \<open>p\<close> given in lower case.\<close>

definition starts_with_ci :: "string \<Rightarrow> string \<Rightarrow> bool" where
  "starts_with_ci p s = (map lower (take (length p) s) = p)"

definition startsWith :: "string \<Rightarrow> string \<Rightarrow> bool" where
  "startsWith p s = (take (length p) s = p)"

fun js_includes :: "string \<Rightarrow> string \<Rightarrow> bool" where
  "js_includes sub [] = (sub = [])"
| "js_includes sub (c # cs) = (startsWith sub (c # cs) \<or> js_includes sub cs)"

fun join :: "string \<Rightarrow> string list \<Rightarrow> string" where
  "join sep [] = []"
| "join sep [x] = x"
| "join sep (x # y # ys) = x @ sep @ join sep (y # ys)"

text \<open>\<open>Array.from(new Set(xs))\<close>: the first occurrence of each element, in order.\<close>

definition js_Set :: "'a list \<Rightarrow> 'a list" where
  "js_Set xs = rev (remdups (rev xs))"

text \<open>\<open>s.replace(/^(qq|user):/i, "")\<close>\<close>

definition strip_id_prefix :: "string \<Rightarrow> string" where
  "strip_id_prefix s =
     (if starts_with_ci ''qq:'' s then drop 3 s
      else if starts_with_ci ''user:'' s then drop 5 s
      else s)"

definition normalizeAllowEntry :: "jsval \<Rightarrow> string" where
  "normalizeAllowEntry entry =
     (let v = trim (if nullish entry then [] else js_String entry)
      in if v = [] then []
         else if v = ''*'' then ''*''
         else strip_id_prefix v)"

definition normalizeAllowList :: "jsval list \<Rightarrow> string list" where
  "normalizeAllowList entries = js_Set (filter (\<lambda>e. e \<noteq> []) (map normalizeAllowEntry entries))"

definition isSenderAllowed :: "string \<Rightarrow> string list \<Rightarrow> bool" where
  "isSenderAllowed senderId allowFrom =
     (let normalized = normalizeAllowEntry (Str senderId)
      in if ''*'' \<in> set allowFrom then True else normalized \<in> set allowFrom)"

definition normalizeTarget :: "string \<Rightarrow> string" where
  "normalizeTarget raw = strip_id_prefix (trim raw)"

definition formatTarget :: "string \<Rightarrow> string" where
  "formatTarget i = ''qq:'' @ i"

text \<open>
  \<open>Number.parseInt(s, 10)\<close>: leading white space, an optional sign, then the longest run
  of digits; \<open>NaN\<close> (here \<open>None\<close>) when there is no digit. The value is the exact
  integer; the source's double rounds it beyond \<open>2^53\<close>.
\<close>

definition digits_value :: "string \<Rightarrow> nat" where
  "digits_value ds = foldl (\<lambda>a c. 10 * a + ((of_char c :: nat) - 48)) 0 ds"

definition js_parseInt :: "string \<Rightarrow> int option" where
  "js_parseInt s =
     (let s1 = dropWhile isWhiteSpace s;
          neg = (case s1 of [] \<Rightarrow> False | c # r \<Rightarrow> c = CHR ''-'');
          s2 = (case s1 of [] \<Rightarrow> [] | c # r \<Rightarrow> if c = CHR ''-'' \<or> c = CHR ''+'' then r else s1);
          ds = takeWhile isDigit s2
      in if ds = [] then None
         else Some (if neg then - int (digits_value ds) else int (digits_value ds)))"

definition parseUserId :: "string \<Rightarrow> js_error + int" where
  "parseUserId target =
     (case js_parseInt (normalizeTarget target) of
        None \<Rightarrow> Inl (Error (''Invalid QQ target: '' @ target))
      | Some parsed \<Rightarrow> Inr parsed)"

section \<open>Channel: message codec\<close>

definition isLikelyMediaRef :: "string \<Rightarrow> bool" where
  "isLikelyMediaRef v =
     (let trimmed = trim v
      in if trimmed = [] then False
         else if starts_with_ci ''http:'' trimmed \<or> starts_with_ci ''https:'' trimmed
                 \<or> starts_with_ci ''file:'' trimmed \<or> starts_with_ci ''base64:'' trimmed then True
         else if startsWith ''/'' trimmed then True
         else if (case trimmed of
                    a # b # c # r \<Rightarrow> isAsciiLetter a \<and> b = CHR '':'' \<and> (c = CHR 0x5C \<or> c = CHR ''/'')
                  | _ \<Rightarrow> False) then True
         else False)"

text \<open>
  One element of a message array, as the loop reads it: \<open>type\<close>, and the members
  \<open>text\<close>, \<open>url\<close> and \<open>file\<close> of \<open>data\<close> (all \<open>Undefined\<close> when \<open>data\<close> is missing).
\<close>

record segment =
  seg_type :: jsval
  seg_text :: jsval
  seg_url :: jsval
  seg_file :: jsval

datatype wire_message = MsgString string | MsgArray "segment list" | MsgOther

record parsed_message =
  pm_text :: string
  mediaUrls :: "string list"
  mediaTypes :: "string list"

text \<open>\<open>typed?.data?.url ?? typed?.data?.file ?? ""\<close>\<close>

definition seg_ref :: "segment \<Rightarrow> jsval" where
  "seg_ref g =
     (if \<not> nullish (seg_url g) then seg_url g
      else if \<not> nullish (seg_file g) then seg_file g
      else Str [])"

fun parse_loop ::
  "segment list \<Rightarrow> string list \<times> string list \<times> string list \<Rightarrow>
     string list \<times> string list \<times> string list" where
  "parse_loop [] acc = acc"
| "parse_loop (g # gs) (textParts, urls, types) =
     (if seg_type g = Str ''text'' then
        (case seg_text g of
           Str t \<Rightarrow> parse_loop gs (textParts @ [t], urls, types)
         | _ \<Rightarrow> parse_loop gs (textParts, urls, types))
      else if seg_type g = Str ''image'' \<or> seg_type g = Str ''record'' \<or> seg_type g = Str ''video'' then
        (case seg_ref g of
           Str url \<Rightarrow>
             if isLikelyMediaRef url then
               parse_loop gs
                 (textParts, urls @ [url],
                  types @ [if seg_type g = Str ''record'' then ''audio''
                           else if seg_type g = Str ''video'' then ''video'' else ''image''])
             else parse_loop gs (textParts, urls, types)
         | _ \<Rightarrow> parse_loop gs (textParts, urls, types))
      else parse_loop gs (textParts, urls, types))"

definition parseOneBotMessage :: "wire_message \<Rightarrow> parsed_message" where
  "parseOneBotMessage m =
     (case (case m of
              MsgString s \<Rightarrow> ([s], [], [])
            | MsgArray gs \<Rightarrow> parse_loop gs ([], [], [])
            | MsgOther \<Rightarrow> ([], [], [])) of
        (textParts, urls, types) \<Rightarrow>
          \<lparr>pm_text = concat textParts, mediaUrls = urls, mediaTypes = types\<rparr>)"

definition describeMediaSummary :: "string list \<Rightarrow> string" where
  "describeMediaSummary types =
     (if length types = 0 then []
      else
        (case js_Set types of
           [typeLabel] \<Rightarrow>
             if length types = 1 then ''sent a '' @ typeLabel @ '' attachment''
             else ''sent '' @ show_nat (length types) @ '' '' @ typeLabel @ '' attachments''
         | _ \<Rightarrow> ''sent media attachments''))"

section \<open>Channel: the world the plugin acts on\<close>

datatype media_segment_type = SegImage | SegRecord | SegVideo

datatype out_segment = TextSegment string | MediaSegment media_segment_type string

definition buildTextSegment :: "string \<Rightarrow> out_segment" where
  "buildTextSegment t = TextSegment t"

definition buildMediaSegment :: "media_segment_type \<Rightarrow> string \<Rightarrow> out_segment" where
  "buildMediaSegment ty file = MediaSegment ty file"

record action_response =
  resp_status :: string
  resp_retcode :: int
  resp_message_id :: jsval

text \<open>
  The context handed to the host's dispatcher (the members this file computes itself;
  the timestamp and the members copied from the host's route are left out).
\<close>

record inbound_context =
  Body :: string
  RawBody :: string
  CommandBody :: string
  From :: string
  To :: string
  SenderName :: string
  SenderId :: string
  MessageSid :: "string option"
  CommandAuthorized :: bool
  MediaUrl :: "string option"
  MediaUrls :: "string list option"
  MediaType :: "string option"
  MediaTypes :: "string list option"

datatype status_update = LastInboundAt | LastOutboundAt

datatype chan_effect =
    LogInfo string
  | LogWarning string
  | ReadAllowFromStore
  | UpsertPairingRequest string string
  | DetectMime string
  | OneBotAction string int "out_segment list"
  | StatusSink status_update
  | RecordInboundSession inbound_context
  | DispatchReply inbound_context

text \<open>
  The world: what has been done so far, the host's pairing requests, and the host's
  persisted allow-list (\<open>None\<close> when reading it fails).
\<close>

record world =
  trace :: "chan_effect list"
  pairing_requests :: "string list"
  allowFromStore :: "jsval list option"

datatype chunk_mode = ByLength | ByNewline

text \<open>
  The capabilities of the host runtime and of the gateway, as functions. Those that reach
  outside the process may answer differently each time: they see everything done so far.
  \<open>transport\<close> is what \<open>sendOneBotAction\<close> comes to for the account at hand, over the
  socket or over HTTP. The runtime is taken to be registered (\<open>getNapcatRuntime\<close> returns).
\<close>

record host =
  detectMime :: "chan_effect list \<Rightarrow> string \<Rightarrow> js_error + string option"
  mediaKindFromMime :: "string option \<Rightarrow> string option"
  transport :: "chan_effect list \<Rightarrow> string \<Rightarrow> int \<Rightarrow> out_segment list \<Rightarrow> js_error + action_response"
  now :: "chan_effect list \<Rightarrow> string"
  pairingCode :: "string \<Rightarrow> string"
  buildPairingReply :: "string \<Rightarrow> string \<Rightarrow> string"
  formatInboundEnvelope :: "string \<Rightarrow> string \<Rightarrow> string \<Rightarrow> string"
  chunkTextWithMode :: "string \<Rightarrow> nat \<Rightarrow> chunk_mode \<Rightarrow> string list"
  convertMarkdownTables :: "string \<Rightarrow> string"
  stripMarkdown :: "string \<Rightarrow> string"

text \<open>An \<open>async\<close> function: from the world to a value or a thrown error, and the new world.\<close>

type_synonym 'a io = "world \<Rightarrow> (js_error + 'a) \<times> world"

definition ret :: "'a \<Rightarrow> 'a io" where
  "ret x w = (Inr x, w)"

definition throw :: "js_error \<Rightarrow> 'a io" where
  "throw e w = (Inl e, w)"

definition bind :: "'a io \<Rightarrow> ('a \<Rightarrow> 'b io) \<Rightarrow> 'b io" where
  "bind m f w = (case m w of (Inl e, w1) \<Rightarrow> (Inl e, w1) | (Inr x, w1) \<Rightarrow> f x w1)"

definition emit :: "chan_effect \<Rightarrow> unit io" where
  "emit e w = (Inr (), w\<lparr>trace := trace w @ [e]\<rparr>)"

definition emits :: "chan_effect list \<Rightarrow> unit io" where
  "emits es w = (Inr (), w\<lparr>trace := trace w @ es\<rparr>)"

definition call_detectMime :: "host \<Rightarrow> string \<Rightarrow> (string option) io" where
  "call_detectMime h filePath w = (detectMime h (trace w) filePath, w\<lparr>trace := trace w @ [DetectMime filePath]\<rparr>)"

definition sendOneBotAction :: "host \<Rightarrow> string \<Rightarrow> int \<Rightarrow> out_segment list \<Rightarrow> action_response io" where
  "sendOneBotAction h action userId message w =
     (transport h (trace w) action userId message,
      w\<lparr>trace := trace w @ [OneBotAction action userId message]\<rparr>)"

text \<open>\<open>readAllowFromStore("napcat").catch(() => [])\<close>\<close>

definition readAllowFromStore :: "(jsval list) io" where
  "readAllowFromStore w =
     (Inr (case allowFromStore w of None \<Rightarrow> [] | Some entries \<Rightarrow> entries),
      w\<lparr>trace := trace w @ [ReadAllowFromStore]\<rparr>)"

text \<open>
  Modelled from the spec: \<open>upsertPairingRequest\<close> is the host's; the spec has it
  "idempotent per sender", returning "whether this is a newly created request". The
  code it returns is the host's to choose.
\<close>

definition upsertPairingRequest :: "host \<Rightarrow> string \<Rightarrow> string \<Rightarrow> (string \<times> bool) io" where
  "upsertPairingRequest h i name w =
     (Inr (pairingCode h i, i \<notin> set (pairing_requests w)),
      w\<lparr>trace := trace w @ [UpsertPairingRequest i name],
        pairing_requests :=
          (if i \<in> set (pairing_requests w) then pairing_requests w else pairing_requests w @ [i])\<rparr>)"

section \<open>Channel: outbound sends\<close>

definition resolveMediaSegmentType :: "host \<Rightarrow> string \<Rightarrow> (media_segment_type option) io" where
  "resolveMediaSegmentType h mediaUrl =
     (if starts_with_ci ''base64://'' mediaUrl then ret (Some SegImage)
      else
        bind (call_detectMime h mediaUrl) (\<lambda>mime.
          if mediaKindFromMime h mime = Some ''image'' then ret (Some SegImage)
          else if mediaKindFromMime h mime = Some ''audio'' then ret (Some SegRecord)
          else if mediaKindFromMime h mime = Some ''video'' then ret (Some SegVideo)
          else ret None))"

definition resolveMessageId :: "host \<Rightarrow> action_response \<Rightarrow> string io" where
  "resolveMessageId h response w =
     (Inr (case resp_message_id response of
             Num t \<Rightarrow> t | Str t \<Rightarrow> t | _ \<Rightarrow> now h (trace w)), w)"

text \<open>The part \<open>sendNapcatText\<close> and \<open>sendNapcatMedia\<close> share, once the message is built.\<close>

definition send_private_msg :: "host \<Rightarrow> int \<Rightarrow> out_segment list \<Rightarrow> (string \<times> string) io" where
  "send_private_msg h userId message =
     bind (sendOneBotAction h ''send_private_msg'' userId message) (\<lambda>response.
       if resp_status response = ''failed'' then
         throw (Error (''Napcat send failed (retcode '' @ show_int (resp_retcode response) @ '')''))
       else bind (resolveMessageId h response) (\<lambda>messageId. ret (messageId, show_int userId)))"

definition sendNapcatText :: "host \<Rightarrow> string \<Rightarrow> string \<Rightarrow> (string \<times> string) io" where
  "sendNapcatText h to txt =
     (case parseUserId to of
        Inl e \<Rightarrow> throw e
      | Inr userId \<Rightarrow> send_private_msg h userId [buildTextSegment txt])"

definition sendNapcatMedia :: "host \<Rightarrow> string \<Rightarrow> string \<Rightarrow> string \<Rightarrow> (string \<times> string) io" where
  "sendNapcatMedia h to txt mediaUrl =
     bind (resolveMediaSegmentType h mediaUrl) (\<lambda>mediaType.
       case mediaType of
         None \<Rightarrow> sendNapcatText h to (if txt \<noteq> [] then txt @ [CHR 0x0A] @ mediaUrl else mediaUrl)
       | Some ty \<Rightarrow>
           (case parseUserId to of
              Inl e \<Rightarrow> throw e
            | Inr userId \<Rightarrow>
                send_private_msg h userId
                  ((if txt \<noteq> [] then [buildTextSegment txt] else []) @ [buildMediaSegment ty mediaUrl])))"

section \<open>Channel: reply delivery\<close>

text \<open>\<open>s.replace(/<[^>]+>/g, "")\<close>, as a scan from the left.\<close>

function strip_tags :: "string \<Rightarrow> string" where
  "strip_tags [] = []"
| "strip_tags (c # cs) =
     (if c = CHR ''<'' \<and> takeWhile (\<lambda>x. x \<noteq> CHR ''>'') cs \<noteq> [] \<and> dropWhile (\<lambda>x. x \<noteq> CHR ''>'') cs \<noteq> []
      then strip_tags (tl (dropWhile (\<lambda>x. x \<noteq> CHR ''>'') cs))
      else c # strip_tags cs)"
  by pat_completeness auto
termination
  by (relation "measure length")
     (auto simp: less_Suc_eq_le intro: le_trans[OF _ length_dropWhile_le] diff_le_self)

definition sanitizeNapcatText :: "host \<Rightarrow> string \<Rightarrow> string" where
  "sanitizeNapcatText h t =
     (if t = [] then [] else strip_tags (stripMarkdown h (convertMarkdownTables h t)))"

fun send_chunks :: "host \<Rightarrow> string \<Rightarrow> string list \<Rightarrow> unit io" where
  "send_chunks h to [] = ret ()"
| "send_chunks h to (chunk # rest) =
     (if chunk = [] then send_chunks h to rest
      else
        bind (sendNapcatText h to (sanitizeNapcatText h chunk)) (\<lambda>sent.
        bind (emit (StatusSink LastOutboundAt)) (\<lambda>u.
        send_chunks h to rest)))"

definition sendTextChunks :: "host \<Rightarrow> nat \<Rightarrow> chunk_mode \<Rightarrow> string \<Rightarrow> string \<Rightarrow> unit io" where
  "sendTextChunks h textLimit chunkMode to t =
     send_chunks h to
       (if chunkTextWithMode h t textLimit chunkMode \<noteq> [] then chunkTextWithMode h t textLimit chunkMode
        else [t])"

record reply_payload =
  rp_text :: "string option"
  rp_mediaUrl :: "string option"
  rp_mediaUrls :: "string list option"

text \<open>The \<open>for\<close> loop of \<open>deliver\<close>, with its \<open>first\<close> flag.\<close>

fun media_loop :: "host \<Rightarrow> string \<Rightarrow> bool \<Rightarrow> string \<Rightarrow> string list \<Rightarrow> unit io" where
  "media_loop h to first caption [] = ret ()"
| "media_loop h to first caption (mediaUrl # rest) =
     bind (sendNapcatMedia h to (if first then caption else []) mediaUrl) (\<lambda>sent.
     bind (emit (StatusSink LastOutboundAt)) (\<lambda>u.
     media_loop h to False caption rest))"

definition deliver :: "host \<Rightarrow> nat \<Rightarrow> chunk_mode \<Rightarrow> string \<Rightarrow> reply_payload \<Rightarrow> unit io" where
  "deliver h textLimit chunkMode to payload =
     (let urls = (case rp_mediaUrls payload of
                    Some us \<Rightarrow> us
                  | None \<Rightarrow> if truthy (rp_mediaUrl payload) then [the (rp_mediaUrl payload)] else []);
          t = sanitizeNapcatText h (case rp_text payload of None \<Rightarrow> [] | Some x \<Rightarrow> x)
      in if length urls = 0 then sendTextChunks h textLimit chunkMode to t
         else if t \<noteq> [] \<and> length t > textLimit then
           bind (sendTextChunks h textLimit chunkMode to t) (\<lambda>u. media_loop h to True [] urls)
         else media_loop h to True t urls)"

section \<open>Channel: inbound pipeline\<close>

datatype dm_policy = Pairing | Allowlist | OpenPolicy | Disabled

record account =
  accountId :: string
  dmPolicy :: "dm_policy option"
  allowFrom :: "jsval list option"

record inbound_event =
  ev_post_type :: jsval
  ev_message_type :: jsval
  ev_user_id :: jsval
  ev_self_id :: jsval
  ev_sender_nickname :: jsval
  ev_message :: wire_message
  ev_raw_message :: jsval
  ev_message_id :: jsval

text \<open>\<open>typeof v === "number" || typeof v === "string" ? String(v) : undefined\<close>\<close>

definition id_string :: "jsval \<Rightarrow> string option" where
  "id_string v = (case v of Num t \<Rightarrow> Some t | Str t \<Rightarrow> Some t | _ \<Rightarrow> None)"

definition effectiveAllowFrom :: "account \<Rightarrow> jsval list \<Rightarrow> string list" where
  "effectiveAllowFrom acct stored =
     js_Set (normalizeAllowList (case allowFrom acct of None \<Rightarrow> [] | Some es \<Rightarrow> es)
             @ normalizeAllowList stored)"

definition senderName_of :: "inbound_event \<Rightarrow> string \<Rightarrow> string" where
  "senderName_of ev senderId =
     (if trim (string_or_empty (ev_sender_nickname ev)) \<noteq> []
      then trim (string_or_empty (ev_sender_nickname ev)) else senderId)"

text \<open>The two log lines about inbound media.\<close>

definition log_inbound_media :: "string \<Rightarrow> parsed_message \<Rightarrow> string \<Rightarrow> chan_effect list" where
  "log_inbound_media senderId parsedMessage rawMessage =
     (if length (mediaUrls parsedMessage) > 0 then
        [LogInfo (''napcat inbound media: sender='' @ senderId @ '' types=''
           @ (if join '','' (mediaTypes parsedMessage) \<noteq> [] then join '','' (mediaTypes parsedMessage)
              else ''unknown'')
           @ '' urls='' @ join '','' (mediaUrls parsedMessage))]
      else if js_includes ''[CQ:image'' rawMessage \<or> js_includes ''[CQ:record'' rawMessage
              \<or> js_includes ''[CQ:video'' rawMessage then
        [LogWarning (''napcat inbound media not parsed: sender='' @ senderId @ '' raw_message=''
           @ take 200 rawMessage)]
      else [])"

definition build_context ::
  "host \<Rightarrow> inbound_event \<Rightarrow> string \<Rightarrow> parsed_message \<Rightarrow> bool \<Rightarrow> inbound_context" where
  "build_context h ev senderId parsedMessage commandAuthorized =
     (let rawMessage = trim (string_or_empty (ev_raw_message ev));
          bodyText = trim (if pm_text parsedMessage \<noteq> [] then pm_text parsedMessage else rawMessage);
          mediaSummary = (if bodyText \<noteq> [] then [] else describeMediaSummary (mediaTypes parsedMessage));
          combinedText = (if bodyText \<noteq> [] then bodyText else mediaSummary);
          commandText = trim (pm_text parsedMessage)
      in \<lparr>Body = formatInboundEnvelope h (senderName_of ev senderId) senderId combinedText,
          RawBody = commandText,
          CommandBody = commandText,
          From = formatTarget senderId,
          To = formatTarget senderId,
          SenderName = senderName_of ev senderId,
          SenderId = senderId,
          MessageSid = id_string (ev_message_id ev),
          CommandAuthorized = commandAuthorized,
          MediaUrl = (case mediaUrls parsedMessage of [] \<Rightarrow> None | u # us \<Rightarrow> Some u),
          MediaUrls = (if length (mediaUrls parsedMessage) \<noteq> 0 then Some (mediaUrls parsedMessage) else None),
          MediaType = (case mediaTypes parsedMessage of [] \<Rightarrow> None | u # us \<Rightarrow> Some u),
          MediaTypes = (if length (mediaTypes parsedMessage) \<noteq> 0 then Some (mediaTypes parsedMessage) else None)\<rparr>)"

text \<open>
  From the route resolution on: the session record, the status sink, and the hand-over to
  the host's dispatcher, which is given \<open>deliver\<close> for the replies it decides to send.
\<close>

definition dispatch :: "host \<Rightarrow> inbound_context \<Rightarrow> unit io" where
  "dispatch h ctxPayload =
     bind (emit (RecordInboundSession ctxPayload)) (\<lambda>u.
     bind (emit (StatusSink LastInboundAt)) (\<lambda>u.
     emit (DispatchReply ctxPayload)))"

text \<open>The pairing branch, for a sender that is not allowed.\<close>

definition pairing_flow :: "host \<Rightarrow> string \<Rightarrow> string \<Rightarrow> unit io" where
  "pairing_flow h senderId senderName =
     bind (upsertPairingRequest h senderId senderName) (\<lambda>r.
       case r of (code, created) \<Rightarrow>
         if created then
           bind (sendNapcatText h (formatTarget senderId)
                   (buildPairingReply h (''Your QQ: '' @ senderId) code)) (\<lambda>sent.
           emit (StatusSink LastOutboundAt))
         else ret ())"

definition handlePrivateMessage :: "host \<Rightarrow> account \<Rightarrow> inbound_event \<Rightarrow> unit io" where
  "handlePrivateMessage h acct ev =
     (if string_or_empty (ev_post_type ev) \<noteq> ''message'' then ret ()
      else if string_or_empty (ev_message_type ev) \<noteq> ''private'' then ret ()
      else
        (case id_string (ev_user_id ev) of
           None \<Rightarrow> ret ()
         | Some senderId \<Rightarrow>
             if id_string (ev_self_id ev) = Some senderId then ret ()
             else
               bind (emits (log_inbound_media senderId (parseOneBotMessage (ev_message ev))
                              (trim (string_or_empty (ev_raw_message ev))))) (\<lambda>u.
               bind readAllowFromStore (\<lambda>stored.
                 let policy = (case dmPolicy acct of None \<Rightarrow> OpenPolicy | Some p \<Rightarrow> p);
                     senderAllowed = isSenderAllowed senderId (effectiveAllowFrom acct stored);
                     commandAuthorized = (policy = OpenPolicy \<or> senderAllowed)
                 in if policy = Disabled then ret ()
                    else if policy \<noteq> OpenPolicy \<and> \<not> senderAllowed then
                      (if policy = Pairing then pairing_flow h senderId (senderName_of ev senderId)
                       else ret ())
                    else
                      dispatch h
                        (build_context h ev senderId (parseOneBotMessage (ev_message ev))
                           commandAuthorized)))))"

section \<open>The codec as the specification words it\<close>

text \<open>
  A reference "looks real" when, trimmed, it has a URL scheme (\<open>http\<close>, \<open>https\<close>,
  \<open>file\<close>), is an absolute filesystem path (a leading slash, or a drive letter, a colon
  and a slash or backslash), or has the \<open>base64:\<close> pseudo-scheme.
\<close>

definition spec_has_url_scheme :: "string \<Rightarrow> bool" where
  "spec_has_url_scheme r =
     (starts_with_ci ''http:'' r \<or> starts_with_ci ''https:'' r \<or> starts_with_ci ''file:'' r)"

definition spec_is_absolute_path :: "string \<Rightarrow> bool" where
  "spec_is_absolute_path r =
     (startsWith ''/'' r \<or>
      (length r \<ge> 3 \<and> isAsciiLetter (r ! 0) \<and> r ! 1 = CHR '':'' \<and> (r ! 2 = CHR ''/'' \<or> r ! 2 = CHR 0x5C)))"

definition spec_looks_like_reference :: "string \<Rightarrow> bool" where
  "spec_looks_like_reference v =
     (spec_has_url_scheme (trim v) \<or> spec_is_absolute_path (trim v)
      \<or> starts_with_ci ''base64:'' (trim v))"

text \<open>\<open>record\<close> is the media kind "audio"; \<open>image\<close> and \<open>video\<close> are themselves.\<close>

definition spec_media_kind :: "string \<Rightarrow> string" where
  "spec_media_kind ty = (if ty = ''record'' then ''audio'' else ty)"

text \<open>
  The reference field of a segment is \<open>url\<close> or, when that is absent (undefined or null),
  \<open>file\<close>. An image, record or video segment gives a media reference when that field is
  a string that looks real.
\<close>

definition spec_media_reference :: "segment \<Rightarrow> (string \<times> string) option" where
  "spec_media_reference g =
     (case seg_type g of
        Str ty \<Rightarrow>
          if ty = ''image'' \<or> ty = ''record'' \<or> ty = ''video'' then
            (case (if nullish (seg_url g) then seg_file g else seg_url g) of
               Str r \<Rightarrow> if spec_looks_like_reference r then Some (r, spec_media_kind ty) else None
             | _ \<Rightarrow> None)
          else None
      | _ \<Rightarrow> None)"

definition spec_segment_text :: "segment \<Rightarrow> string" where
  "spec_segment_text g = (if seg_type g = Str ''text'' then string_or_empty (seg_text g) else [])"

definition spec_normalize :: "segment list \<Rightarrow> string \<times> (string \<times> string) list" where
  "spec_normalize gs = (concat (map spec_segment_text gs), List.map_filter spec_media_reference gs)"

definition text_segment :: "string \<Rightarrow> segment" where
  "text_segment t = \<lparr>seg_type = Str ''text'', seg_text = Str t, seg_url = Undefined, seg_file = Undefined\<rparr>"

definition url_segment :: "string \<Rightarrow> string \<Rightarrow> segment" where
  "url_segment ty u = \<lparr>seg_type = Str ty, seg_text = Undefined, seg_url = Str u, seg_file = Undefined\<rparr>"

text \<open>The wire segment type for a media kind, as the specification maps them.\<close>

definition spec_wire_type :: "string option \<Rightarrow> media_segment_type option" where
  "spec_wire_type kind =
     (if kind = Some ''image'' then Some SegImage
      else if kind = Some ''audio'' then Some SegRecord
      else if kind = Some ''video'' then Some SegVideo
      else None)"

text \<open>
  Sending media items one after the other, each with the caption given for it, reporting
  to the status sink after each.
\<close>

fun each_media :: "host \<Rightarrow> string \<Rightarrow> (string \<times> string) list \<Rightarrow> unit io" where
  "each_media h to [] = ret ()"
| "each_media h to ((caption, mediaUrl) # rest) =
     bind (sendNapcatMedia h to caption mediaUrl) (\<lambda>sent.
     bind (emit (StatusSink LastOutboundAt)) (\<lambda>u.
     each_media h to rest))"

text \<open>The media items and the sanitized caption of a reply.\<close>

definition reply_media :: "reply_payload \<Rightarrow> string list" where
  "reply_media payload =
     (case rp_mediaUrls payload of
        Some us \<Rightarrow> us
      | None \<Rightarrow> (case rp_mediaUrl payload of None \<Rightarrow> [] | Some u \<Rightarrow> if u = [] then [] else [u]))"

definition reply_caption :: "host \<Rightarrow> reply_payload \<Rightarrow> string" where
  "reply_caption h payload = sanitizeNapcatText h (case rp_text payload of None \<Rightarrow> [] | Some x \<Rightarrow> x)"

text \<open>An event that passes the filters of the pipeline, from the sender \<open>sid\<close>.\<close>

definition private_message_from :: "inbound_event \<Rightarrow> string \<Rightarrow> bool" where
  "private_message_from ev sid =
     (ev_post_type ev = Str ''message'' \<and> ev_message_type ev = Str ''private''
      \<and> id_string (ev_user_id ev) = Some sid \<and> id_string (ev_self_id ev) \<noteq> Some sid)"

text \<open>The persisted allow-list as the pipeline reads it.\<close>

definition stored_entries :: "world \<Rightarrow> jsval list" where
  "stored_entries w = (case allowFromStore w of None \<Rightarrow> [] | Some entries \<Rightarrow> entries)"

text \<open>What the pipeline does before it looks at the policy: the media log and the store read.\<close>

definition prelude :: "inbound_event \<Rightarrow> string \<Rightarrow> chan_effect list" where
  "prelude ev sid =
     log_inbound_media sid (parseOneBotMessage (ev_message ev)) (trim (string_or_empty (ev_raw_message ev)))
     @ [ReadAllowFromStore]"

text \<open>
  The world once the pipeline has read the store and upserted the pairing request of
  \<open>sid\<close>.
\<close>

definition after_upsert :: "inbound_event \<Rightarrow> string \<Rightarrow> world \<Rightarrow> world" where
  "after_upsert ev sid w =
     w\<lparr>trace := trace w @ prelude ev sid @ [UpsertPairingRequest sid (senderName_of ev sid)],
       pairing_requests :=
         (if sid \<in> set (pairing_requests w) then pairing_requests w else pairing_requests w @ [sid])\<rparr>"

fun is_action :: "chan_effect \<Rightarrow> bool" where
  "is_action (OneBotAction a u m) = True"
| "is_action e = False"

fun is_dispatch :: "chan_effect \<Rightarrow> bool" where
  "is_dispatch (DispatchReply c) = True"
| "is_dispatch (RecordInboundSession c) = True"
| "is_dispatch e = False"

section \<open>Sample hosts and worlds\<close>

text \<open>A chunker by length, for the sample host.\<close>

fun chunks_of :: "nat \<Rightarrow> nat \<Rightarrow> string \<Rightarrow> string list" where
  "chunks_of 0 n t = []"
| "chunks_of (Suc k) n t = (if t = [] then [] else take n t # chunks_of k n (drop n t))"

definition ok_action_response :: action_response where
  "ok_action_response = \<lparr>resp_status = ''ok'', resp_retcode = 0, resp_message_id = Num ''42''\<rparr>"

text \<open>A host that detects no MIME type and whose gateway accepts every action.\<close>

definition host0 :: host where
  "host0 =
     \<lparr>detectMime = (\<lambda>t u. Inr None),
      mediaKindFromMime =
        (\<lambda>m. case m of None \<Rightarrow> None
             | Some x \<Rightarrow> if startsWith ''image/'' x then Some ''image''
                        else if startsWith ''audio/'' x then Some ''audio''
                        else if startsWith ''video/'' x then Some ''video'' else None),
      transport = (\<lambda>t a u m. Inr ok_action_response),
      now = (\<lambda>t. ''1700000000000''),
      pairingCode = (\<lambda>i. ''K7Q2''),
      buildPairingReply = (\<lambda>idLine code. idLine @ '' code '' @ code),
      formatInboundEnvelope = (\<lambda>name i body. body),
      chunkTextWithMode = (\<lambda>t n m. chunks_of (length t) n t),
      convertMarkdownTables = (\<lambda>t. t),
      stripMarkdown = (\<lambda>t. t)\<rparr>"

text \<open>The same host, detecting every file as AMR audio.\<close>

definition host1 :: host where
  "host1 = host0\<lparr>detectMime := (\<lambda>t u. Inr (Some ''audio/amr''))\<rparr>"

definition world0 :: world where
  "world0 = \<lparr>trace = [], pairing_requests = [], allowFromStore = Some []\<rparr>"

definition event_from :: "jsval \<Rightarrow> string \<Rightarrow> inbound_event" where
  "event_from uid t =
     \<lparr>ev_post_type = Str ''message'', ev_message_type = Str ''private'', ev_user_id = uid,
      ev_self_id = Num ''10000'', ev_sender_nickname = Str ''Ann'',
      ev_message = MsgArray [text_segment t], ev_raw_message = Str t, ev_message_id = Num ''7''\<rparr>"

definition account_with :: "dm_policy \<Rightarrow> jsval list \<Rightarrow> account" where
  "account_with p entries = \<lparr>accountId = ''default'', dmPolicy = Some p, allowFrom = Some entries\<rparr>"

definition reply1 :: reply_payload where
  "reply1 = \<lparr>rp_text = Some ''hello <b>world</b>'', rp_mediaUrl = None,
     rp_mediaUrls = Some [''/a.amr'', ''/b.amr'']\<rparr>"

section \<open>Invariants of the pending table\<close>

lemma show_nat_1: "show_nat (Suc 0) = ''1''"
  by code_simp

lemma show_nat_2: "show_nat 2 = ''2''" "show_nat (Suc (Suc 0)) = ''2''"
  by code_simp+

lemma distinct_step:
  assumes "distinct (map fst (pending s))"
  shows "distinct (map fst (pending (fst (step opts fetch e s))))"
proof -
  have cl: "\<And>r s. pending (fst (cleanupPending r s)) = []"
    by (simp add: cleanupPending_def split: prod.splits)
  show ?thesis
    using assms
    by (cases e)
       (auto simp: finish_def on_open_def on_message_def on_close_def on_timeout_def connect_def
          stop_def sendAction_def sendActionWs_def cleanupPending_def
          AList.distinct_update AList.distinct_delete
          split: prod.splits frame.splits option.splits sum.splits if_splits)
qed

lemma distinct_run:
  "distinct (map fst (pending s)) \<Longrightarrow> distinct (map fst (pending (fst (run opts fetch evs s))))"
proof (induction evs arbitrary: s)
  case Nil
  then show ?case by simp
next
  case (Cons e evs)
  from distinct_step[OF Cons.prems, of opts fetch e] Cons.IH[of "fst (step opts fetch e s)"]
  show ?case by (auto split: prod.splits)
qed

lemma distinct_reached: "distinct (map fst (pending (reached opts fetch evs)))"
  unfolding reached_def
  by (rule distinct_run) (simp add: createOneBotConnection_def connect_def split: prod.splits)


section \<open>Reconnection backoff\<close>

lemma schedules_append: "schedules (a @ b) = schedules a @ schedules b"
  by (induction a rule: schedules.induct) auto

lemma schedules_http: "schedules (sendActionHttp opts fetch c a p) = []"
  by (auto simp: sendActionHttp_def split: http_outcome.splits)

lemma schedules_catch: "schedules (sendAction_catch opts fetch c a p e) = []"
  by (auto simp: sendAction_catch_def schedules_http)

lemma schedules_resume: "schedules (resume opts fetch x) = []"
  by (auto simp: resume_def schedules_catch split: prod.splits sum.splits)

lemma schedules_resumes: "schedules (concat (map (resume opts fetch) xs)) = []"
  by (induction xs) (auto simp: schedules_append schedules_resume)

lemma schedules_cleanup: "schedules (fst (cleanup_loop r xs)) = []"
  by (induction r xs rule: cleanup_loop.induct) (auto split: prod.splits)

lemma close_step:
  assumes "\<not> stopped s" "onDisconnected_stops opts = 0"
  shows "schedules (snd (step opts fetch EvClose s)) = [min (1000 * 2 ^ reconnectAttempts s) 15000]
       \<and> reconnectAttempts (fst (step opts fetch EvClose s)) = reconnectAttempts s + 1
       \<and> \<not> stopped (fst (step opts fetch EvClose s))"
  using assms schedules_cleanup[of "''WebSocket closed''" "pending s"]
  by (auto simp: on_close_def cleanupPending_def finish_def schedules_append schedules_resumes
      RECONNECT_BASE_MS_def RECONNECT_MAX_MS_def split: prod.splits)

lemma other_step:
  assumes "e \<noteq> CallStop" "e \<noteq> EvOpen" "e \<noteq> EvClose"
  shows "stopped (fst (step opts fetch e s)) = stopped s \<and> reconnectAttempts (fst (step opts fetch e s)) = reconnectAttempts s"
  using assms
  by (cases e) (auto simp: finish_def on_message_def on_timeout_def connect_def sendAction_def sendActionWs_def
      split: prod.splits frame.splits option.splits sum.splits)


lemma run_counts:
  assumes "\<not> stopped s" "onDisconnected_stops opts = 0" "CallStop \<notin> set evs" "EvOpen \<notin> set evs"
  shows "\<not> stopped (fst (run opts fetch evs s))
       \<and> reconnectAttempts (fst (run opts fetch evs s)) = reconnectAttempts s + count_list evs EvClose"
  using assms
proof (induction evs arbitrary: s)
  case Nil
  then show ?case by simp
next
  case (Cons e evs)
  obtain s1 out1 where st: "step opts fetch e s = (s1, out1)" by (cases "step opts fetch e s")
  have s1: "\<not> stopped s1 \<and> reconnectAttempts s1 = reconnectAttempts s + (if e = EvClose then 1 else 0)"
  proof (cases "e = EvClose")
    case True
    with close_step[OF Cons.prems(1,2), of fetch] st show ?thesis by simp
  next
    case False
    with other_step[of e opts fetch s] Cons.prems st show ?thesis by auto
  qed
  from Cons.IH[of s1] s1 Cons.prems
  have "\<not> stopped (fst (run opts fetch evs s1))
       \<and> reconnectAttempts (fst (run opts fetch evs s1)) = reconnectAttempts s1 + count_list evs EvClose"
    by simp
  with s1 st show ?case by (auto split: prod.splits)
qed

text \<open>
  C3. The open handler resets the attempt counter. If the connection is not stopped and
  \<open>n\<close> closures have happened since that open (and no stop, whether by the owner or by
  the disconnect callback), the next closure schedules a reconnection after
  \<open>min (1000 * 2 ^ n) 15000\<close> milliseconds, computed from the counter before it is
  incremented to \<open>n + 1\<close>.
\<close>

theorem C3_reconnect_backoff:
  assumes "\<not> stopped s" "onDisconnected_stops opts = 0" "CallStop \<notin> set evs" "EvOpen \<notin> set evs"
  shows "reconnectAttempts (fst (step opts fetch EvOpen s)) = 0
       \<and> schedules (snd (step opts fetch EvClose
             (fst (run opts fetch evs (fst (step opts fetch EvOpen s))))))
           = [min (1000 * 2 ^ count_list evs EvClose) 15000]
       \<and> reconnectAttempts (fst (step opts fetch EvClose
             (fst (run opts fetch evs (fst (step opts fetch EvOpen s))))))
           = count_list evs EvClose + 1"
proof -
  let ?s0 = "fst (step opts fetch EvOpen s)"
  have s0: "\<not> stopped ?s0" "reconnectAttempts ?s0 = 0"
    using assms(1) by (simp_all add: on_open_def finish_def)
  let ?s1 = "fst (run opts fetch evs ?s0)"
  have s1: "\<not> stopped ?s1" "reconnectAttempts ?s1 = count_list evs EvClose"
    using run_counts[OF s0(1) assms(2,3,4), of fetch] s0(2) by simp_all
  from close_step[OF s1(1) assms(2), of fetch] s1(2) s0(2) show ?thesis by simp
qed


theorem C3_reconnect_backoff_witness:
  "schedules (snd (step opts0 fetch0 EvClose
      (fst (run opts0 fetch0 [EvClose, EvReconnect, EvError, EvClose, EvReconnect]
         (fst (step opts0 fetch0 EvOpen conn0)))))) = [4000]"
  using C3_reconnect_backoff[of conn0 opts0 "[EvClose, EvReconnect, EvError, EvClose, EvReconnect]" fetch0]
  by (simp add: opts0_def conn0_def)

section \<open>Request timeout\<close>

text \<open>
  C1 (as amended). A \<open>sendAction\<close> over the open socket registers a pending entry
  under the next token and arms its timer for 10000 ms. When the timer of a pending,
  awaited request fires, the entry is removed, the entry's promise is rejected with the
  timeout error (an error no other path of this layer raises), and \<open>sendAction\<close>
  catches it: the caller receives the timeout only when no HTTP URL is configured; with
  one configured the request is issued again over HTTP and the caller receives the
  outcome of that request.
\<close>

theorem C1_timeout_outcome:
  assumes "map_of (pending s) echo = Some ent" "awaited ent"
  shows "(case step opts fetch (EvTimeout echo) s of (s1, out) \<Rightarrow>
      map_of (pending s1) = (map_of (pending s))(echo := None)
    \<and> out = EntryReject echo (Error (''OneBot request timeout: '' @ req_action ent)) #
            LogWarn (''napcat: ws send failed ('' @ req_action ent @ ''), falling back to HTTP'') #
            (if truthy (httpUrl opts)
             then sendActionHttp opts fetch (caller ent) (req_action ent) (req_params ent)
             else [Return (caller ent) (Inl (Error (''OneBot request timeout: '' @ req_action ent)))]))
    \<and> Error (''OneBot request timeout: '' @ req_action ent) \<notin>
         {Error ''WebSocket closed'', Error ''WebSocket stopped'', Error ''WebSocket not connected'',
          Error ''HTTP fallback not configured'', Error (''OneBot HTTP error ('' @ a @ ''): '' @ show_nat n)}
    \<and> (isConnected s0 \<longrightarrow>
         (case step opts fetch (CallSendAction c a0 p0 None) s0 of (s1, out) \<Rightarrow>
            out = [SetTimer (show_nat (echoCounter s0 + 1)) 10000,
                   WsSend a0 p0 (show_nat (echoCounter s0 + 1))]
          \<and> map_of (pending s1) (show_nat (echoCounter s0 + 1)) =
              Some \<lparr>caller = c, req_action = a0, req_params = p0, awaited = True\<rparr>))"
  using assms
  by (simp add: on_timeout_def finish_def resume_def sendAction_catch_def AList.delete_conv'
      sendAction_def sendActionWs_def isConnected_def REQUEST_TIMEOUT_MS_def AList.update_conv')

theorem C1_timeout_outcome_witness:
  "step opts0 fetch0 (EvTimeout ''1'')
     (conn0\<lparr>pending := [(''1'', \<lparr>caller = 7, req_action = ''get_status'', req_params = None, awaited = True\<rparr>)]\<rparr>)
   = (conn0, [EntryReject ''1'' (Error ''OneBot request timeout: get_status''),
        LogWarn ''napcat: ws send failed (get_status), falling back to HTTP'',
        Return 7 (Inl (Error ''OneBot request timeout: get_status''))])"
  using C1_timeout_outcome[of "conn0\<lparr>pending := [(''1'', \<lparr>caller = 7, req_action = ''get_status'', req_params = None, awaited = True\<rparr>)]\<rparr>"
      "''1''" "\<lparr>caller = 7, req_action = ''get_status'', req_params = None, awaited = True\<rparr>" opts0 fetch0]
  by (simp add: conn0_def opts0_def truthy_def on_timeout_def finish_def resume_def sendAction_catch_def)

text \<open>
  C1 as stated fails: with an HTTP URL configured, a request that timed out on the socket
  is posted again over HTTP, and its caller receives the HTTP response, not a timeout.
\<close>

theorem C1_timeout_refetched_counterexample:
  "snd (run opts1 fetch1
      [EvOpen, CallSendAction 7 ''send_private_msg'' None None, EvTimeout ''1'']
      (fst (createOneBotConnection opts1)))
   = [OnConnected, SetTimer ''1'' 10000, WsSend ''send_private_msg'' None ''1'',
      EntryReject ''1'' (Error ''OneBot request timeout: send_private_msg''),
      LogWarn ''napcat: ws send failed (send_private_msg), falling back to HTTP'',
      HttpPost ''http://h'' ''send_private_msg'' None ''{}'',
      Return 7 (Inr ok_response)]"
  by (simp add: createOneBotConnection_def connect_def opts1_def fetch1_def on_open_def finish_def
      sendAction_def sendActionWs_def isConnected_def show_nat_1 REQUEST_TIMEOUT_MS_def
      on_timeout_def resume_def sendAction_catch_def sendActionHttp_def truthy_def)


section \<open>Response correlation\<close>

text \<open>
  C2. A received object without \<open>post_type\<close> is an action response. If its echo token is
  that of a pending entry, the entry's timer is cleared, the entry is removed, exactly
  that entry is resolved with the response, and every other entry stays; delivering the
  same response again does nothing. Without a token, or with a token that matches no
  entry, nothing happens and the state is unchanged.
\<close>

theorem C2_response_delivery:
  assumes "\<not> has_post_type p"
  shows "case echo_field p of
      None \<Rightarrow> step opts fetch (EvMessage (Object p)) s = (s, [])
    | Some v \<Rightarrow>
        (case map_of (pending s) (echo_String v) of
           None \<Rightarrow> step opts fetch (EvMessage (Object p)) s = (s, [])
         | Some ent \<Rightarrow>
             (case step opts fetch (EvMessage (Object p)) s of
                (s1, out) \<Rightarrow>
                  out = [ClearTimer (echo_String v), EntryResolve (echo_String v) p] @
                        (if awaited ent then [Return (caller ent) (Inr p)] else [])
                \<and> map_of (pending s1) = (map_of (pending s))(echo_String v := None)
                \<and> s1 = s\<lparr>pending := pending s1\<rparr>
                \<and> step opts fetch (EvMessage (Object p)) s1 = (s1, [])))"
  using assms
  by (auto simp: on_message_def isEventPayload_def finish_def resume_def AList.delete_conv'
      split: option.splits)


theorem C2_response_delivery_witness:
  "step opts0 fetch0
     (EvMessage (Object \<lparr>has_post_type = False, echo_field = Some (EchoStr ''2''), content = ''ok''\<rparr>))
     (conn0\<lparr>pending :=
        [(''1'', \<lparr>caller = 7, req_action = ''send_private_msg'', req_params = None, awaited = True\<rparr>),
         (''2'', \<lparr>caller = 8, req_action = ''get_status'', req_params = None, awaited = True\<rparr>)]\<rparr>)
   = (conn0\<lparr>pending :=
        [(''1'', \<lparr>caller = 7, req_action = ''send_private_msg'', req_params = None, awaited = True\<rparr>)]\<rparr>,
      [ClearTimer ''2'',
       EntryResolve ''2'' \<lparr>has_post_type = False, echo_field = Some (EchoStr ''2''), content = ''ok''\<rparr>,
       Return 8 (Inr \<lparr>has_post_type = False, echo_field = Some (EchoStr ''2''), content = ''ok''\<rparr>)])"
  using C2_response_delivery[of "\<lparr>has_post_type = False, echo_field = Some (EchoStr ''2''), content = ''ok''\<rparr>"
     opts0 fetch0 "conn0\<lparr>pending :=
        [(''1'', \<lparr>caller = 7, req_action = ''send_private_msg'', req_params = None, awaited = True\<rparr>),
         (''2'', \<lparr>caller = 8, req_action = ''get_status'', req_params = None, awaited = True\<rparr>)]\<rparr>"]
  by (simp add: echo_String_def conn0_def on_message_def finish_def isEventPayload_def resume_def)


section \<open>Teardown\<close>


lemma stop_quiet: "quiet s \<Longrightarrow> stop s = (s, [], [])"
  by (simp add: quiet_def stop_def cleanupPending_def)

lemma stop_times_quiet: "quiet s \<Longrightarrow> stop_times k s = (s, [], [])"
  by (induction k) (simp_all add: stop_quiet)

lemma teardown_http: "filter is_teardown (sendActionHttp opts fetch c a p) = []"
  by (auto simp: sendActionHttp_def split: http_outcome.splits)

lemma quiet_step:
  assumes "quiet s"
  shows "quiet (fst (step opts fetch e s)) \<and> filter is_teardown (snd (step opts fetch e s)) = []"
proof (cases e)
  case EvClose
  have "s\<lparr>ws := None\<rparr> = s" using assms by (simp add: quiet_def)
  with assms show ?thesis
    by (simp add: EvClose on_close_def stop_times_quiet cleanupPending_def quiet_def finish_def)
next
  case CallStop
  with assms show ?thesis by (simp add: stop_quiet finish_def)
next
  case (CallSendAction c a p t)
  with assms show ?thesis
    by (simp add: sendAction_def isConnected_def quiet_def teardown_http)
qed (use assms in \<open>auto simp: quiet_def finish_def on_open_def on_message_def on_timeout_def connect_def
      split: frame.splits option.splits\<close>)

lemma quiet_run:
  "quiet s \<Longrightarrow> quiet (fst (run opts fetch evs s)) \<and> filter is_teardown (snd (run opts fetch evs s)) = []"
proof (induction evs arbitrary: s)
  case Nil
  then show ?case by simp
next
  case (Cons e evs)
  from quiet_step[OF Cons.prems, of opts fetch e] Cons.IH[of "fst (step opts fetch e s)"]
  show ?case by (auto split: prod.splits)
qed

lemma cleanup_loop_effects:
  "fst (cleanup_loop r xs) = concat (map (\<lambda>(echo, entry). [ClearTimer echo, EntryReject echo (Error r)]) xs)"
  by (induction r xs rule: cleanup_loop.induct) (auto split: prod.splits)

lemma stop_effects:
  "case stop s of (s1, es, settled) \<Rightarrow>
     quiet s1 \<and> s1 = s\<lparr>stopped := True, pending := [], ws := None\<rparr>
   \<and> es = concat (map (\<lambda>(echo, entry). [ClearTimer echo, EntryReject echo (Error ''WebSocket stopped'')]) (pending s))
          @ (if ws s = None then [] else [WsClose])"
  using cleanup_loop_effects[of "''WebSocket stopped''" "pending s"]
  by (auto simp: stop_def cleanupPending_def quiet_def split: prod.splits)

lemma stop_times_effects:
  "ws s = None \<Longrightarrow> fst (snd (stop_times (Suc k) s)) =
     concat (map (\<lambda>(echo, entry). [ClearTimer echo, EntryReject echo (Error ''WebSocket stopped'')]) (pending s))
   \<and> quiet (fst (stop_times (Suc k) s))"
  using stop_effects[of s]
  by (auto simp: stop_times_quiet split: prod.splits)

lemma close_with_stop:
  assumes "onDisconnected_stops opts = Suc k"
  shows "fst (snd (on_close opts s)) = OnDisconnected #
     concat (map (\<lambda>(echo, entry). [ClearTimer echo, EntryReject echo (Error ''WebSocket stopped'')]) (pending s))
     \<and> quiet (fst (on_close opts s))"
  using assms stop_times_effects[of "s\<lparr>ws := None\<rparr>" k]
  by (auto simp: on_close_def cleanupPending_def quiet_def split: prod.splits)

text \<open>
  C4. In any state the connection can reach, \<open>stop()\<close> sets the stopped flag, clears the
  timer of every pending entry and rejects that entry once with "WebSocket stopped" (the
  tokens are distinct), empties the table, and closes the socket if there is one. After
  it, whatever events follow (further \<open>stop()\<close> calls, the closure with its callback,
  reconnect timers, sends), no socket is created or closed, no reconnection is scheduled,
  no timer is touched and no entry is settled; a further \<open>stop()\<close> changes nothing.
  When the first \<open>stop()\<close> comes from the disconnect callback, the closure handler
  rejects every entry once, with the "stopped" reason, and schedules nothing.
\<close>

theorem C4_stop_once:
  "case stop (reached opts fetch evs) of
     (s1, es, settled) \<Rightarrow>
       stopped s1 \<and> pending s1 = [] \<and> ws s1 = None
     \<and> es = concat (map (\<lambda>(echo, entry).
               [ClearTimer echo, EntryReject echo (Error ''WebSocket stopped'')])
             (pending (reached opts fetch evs)))
          @ (if ws (reached opts fetch evs) = None then [] else [WsClose])
     \<and> distinct (map fst (pending (reached opts fetch evs)))
     \<and> stop s1 = (s1, [], [])
     \<and> (\<forall>later. filter is_teardown (snd (run opts fetch later s1)) = []
           \<and> stop (fst (run opts fetch later s1)) = (fst (run opts fetch later s1), [], []))
     \<and> (0 < onDisconnected_stops opts \<longrightarrow>
          fst (snd (on_close opts (reached opts fetch evs))) = OnDisconnected #
            concat (map (\<lambda>(echo, entry).
               [ClearTimer echo, EntryReject echo (Error ''WebSocket stopped'')])
             (pending (reached opts fetch evs)))
          \<and> stopped (fst (on_close opts (reached opts fetch evs))))"
proof -
  let ?s = "reached opts fetch evs"
  obtain s1 es settled where st: "stop ?s = (s1, es, settled)" by (cases "stop ?s")
  from stop_effects[of ?s] st have q: "quiet s1"
    and es: "es = concat (map (\<lambda>(echo, entry).
               [ClearTimer echo, EntryReject echo (Error ''WebSocket stopped'')]) (pending ?s))
          @ (if ws ?s = None then [] else [WsClose])"
    by (simp_all add: quiet_def)
  have later: "filter is_teardown (snd (run opts fetch later s1)) = []
      \<and> stop (fst (run opts fetch later s1)) = (fst (run opts fetch later s1), [], [])" for later
    using quiet_run[OF q, of opts fetch later] by (simp add: stop_quiet)
  have cb: "0 < onDisconnected_stops opts \<longrightarrow>
          fst (snd (on_close opts ?s)) = OnDisconnected #
            concat (map (\<lambda>(echo, entry).
               [ClearTimer echo, EntryReject echo (Error ''WebSocket stopped'')]) (pending ?s))
          \<and> stopped (fst (on_close opts ?s))"
  proof
    assume "0 < onDisconnected_stops opts"
    then obtain k where "onDisconnected_stops opts = Suc k" by (cases "onDisconnected_stops opts") auto
    from close_with_stop[OF this, of ?s] show "fst (snd (on_close opts ?s)) = OnDisconnected #
            concat (map (\<lambda>(echo, entry).
               [ClearTimer echo, EntryReject echo (Error ''WebSocket stopped'')]) (pending ?s))
          \<and> stopped (fst (on_close opts ?s))" by (simp add: quiet_def)
  qed
  from q es later cb distinct_reached[of opts fetch evs] st show ?thesis
    by (simp add: quiet_def stop_quiet)
qed



lemma reached_two_pending:
  "reached opts1 fetch1
     [EvOpen, CallSendAction 7 ''send_private_msg'' None None, CallSendAction 8 ''get_status'' None None]
   = \<lparr>pending = [(''1'', \<lparr>caller = 7, req_action = ''send_private_msg'', req_params = None, awaited = True\<rparr>),
                  (''2'', \<lparr>caller = 8, req_action = ''get_status'', req_params = None, awaited = True\<rparr>)],
       ws = Some OPEN, stopped = False, echoCounter = 2, reconnectAttempts = 0\<rparr>"
  by (simp add: reached_def createOneBotConnection_def connect_def opts1_def on_open_def finish_def
      sendAction_def sendActionWs_def isConnected_def show_nat_1 show_nat_2)

theorem C4_stop_once_witness:
  "fst (snd (stop (reached opts1 fetch1
     [EvOpen, CallSendAction 7 ''send_private_msg'' None None, CallSendAction 8 ''get_status'' None None])))
   = [ClearTimer ''1'', EntryReject ''1'' (Error ''WebSocket stopped''),
      ClearTimer ''2'', EntryReject ''2'' (Error ''WebSocket stopped''), WsClose]
   \<and> filter is_teardown (snd (run opts1 fetch1 [CallStop, EvClose, CallStop, EvReconnect]
        (fst (stop (reached opts1 fetch1
     [EvOpen, CallSendAction 7 ''send_private_msg'' None None, CallSendAction 8 ''get_status'' None None]))))) = []
   \<and> fst (snd (on_close opts1 (reached opts1 fetch1
     [EvOpen, CallSendAction 7 ''send_private_msg'' None None, CallSendAction 8 ''get_status'' None None])))
   = [OnDisconnected, ClearTimer ''1'', EntryReject ''1'' (Error ''WebSocket stopped''),
      ClearTimer ''2'', EntryReject ''2'' (Error ''WebSocket stopped'')]"
proof -
  let ?evs = "[EvOpen, CallSendAction 7 ''send_private_msg'' None None,
               CallSendAction 8 ''get_status'' None None]"
  obtain s1 es settled where st: "stop (reached opts1 fetch1 ?evs) = (s1, es, settled)"
    by (cases "stop (reached opts1 fetch1 ?evs)")
  have pos: "0 < onDisconnected_stops opts1" by (simp add: opts1_def)
  from C4_stop_once[of opts1 fetch1 ?evs] st pos
  have es: "es = [ClearTimer ''1'', EntryReject ''1'' (Error ''WebSocket stopped''),
      ClearTimer ''2'', EntryReject ''2'' (Error ''WebSocket stopped''), WsClose]"
    and later: "\<forall>later. filter is_teardown (snd (run opts1 fetch1 later s1)) = []"
    and cb: "fst (snd (on_close opts1 (reached opts1 fetch1 ?evs)))
       = [OnDisconnected, ClearTimer ''1'', EntryReject ''1'' (Error ''WebSocket stopped''),
          ClearTimer ''2'', EntryReject ''2'' (Error ''WebSocket stopped'')]"
    by (simp_all add: reached_two_pending)
  from later have "filter is_teardown
      (snd (run opts1 fetch1 [CallStop, EvClose, CallStop, EvReconnect] s1)) = []"
    by blast
  with es cb st show ?thesis by simp
qed


section \<open>Inbound codec\<close>


lemma drive_cases:
  "(case r of a # b # c # r' \<Rightarrow> isAsciiLetter a \<and> b = CHR '':'' \<and> (c = CHR 0x5C \<or> c = CHR ''/'') | _ \<Rightarrow> False)
   = (length r \<ge> 3 \<and> isAsciiLetter (r ! 0) \<and> r ! 1 = CHR '':'' \<and> (r ! 2 = CHR ''/'' \<or> r ! 2 = CHR 0x5C))"
  by (auto split: list.splits)

lemma isLikelyMediaRef_spec: "isLikelyMediaRef v = spec_looks_like_reference v"
  by (auto simp: isLikelyMediaRef_def spec_looks_like_reference_def spec_has_url_scheme_def
      spec_is_absolute_path_def drive_cases Let_def starts_with_ci_def startsWith_def)


lemma empty_not_reference: "\<not> spec_looks_like_reference []"
  by (simp add: spec_looks_like_reference_def spec_has_url_scheme_def spec_is_absolute_path_def
      trim_def starts_with_ci_def startsWith_def)

lemma step_text:
  "seg_type g = Str ''text'' \<Longrightarrow>
   parse_loop (g # gs) (tp, us, ts) = parse_loop gs (tp @ (case seg_text g of Str t \<Rightarrow> [t] | _ \<Rightarrow> []), us, ts)"
  by (simp split: jsval.splits)

lemma step_media:
  "seg_type g \<noteq> Str ''text'' \<Longrightarrow>
   parse_loop (g # gs) (tp, us, ts) =
     parse_loop gs (tp, us @ map fst (case spec_media_reference g of None \<Rightarrow> [] | Some r \<Rightarrow> [r]),
                    ts @ map snd (case spec_media_reference g of None \<Rightarrow> [] | Some r \<Rightarrow> [r]))"
  by (cases "seg_type g"; cases "seg_url g"; cases "seg_file g")
     (simp_all add: spec_media_reference_def seg_ref_def nullish_def isLikelyMediaRef_spec spec_media_kind_def
        empty_not_reference)

lemma text_no_media: "seg_type g = Str ''text'' \<Longrightarrow> spec_media_reference g = None"
  by (simp add: spec_media_reference_def)

lemma parse_loop_spec:
  "case parse_loop gs (tp, us, ts) of
     (tp', us', ts') \<Rightarrow>
       concat tp' = concat tp @ concat (map spec_segment_text gs)
     \<and> us' = us @ map fst (List.map_filter spec_media_reference gs)
     \<and> ts' = ts @ map snd (List.map_filter spec_media_reference gs)"
proof (induction gs arbitrary: tp us ts)
  case Nil
  then show ?case by (simp add: List.map_filter_simps)
next
  case (Cons g gs)
  show ?case
  proof (cases "seg_type g = Str ''text''")
    case True
    from Cons.IH[of "tp @ (case seg_text g of Str t \<Rightarrow> [t] | _ \<Rightarrow> [])" us ts] True
    show ?thesis
      by (simp only: step_text[OF True])
         (auto simp: List.map_filter_simps text_no_media spec_segment_text_def string_or_empty_def
            split: jsval.splits prod.splits)
  next
    case False
    from Cons.IH[of tp "us @ map fst (case spec_media_reference g of None \<Rightarrow> [] | Some r \<Rightarrow> [r])"
        "ts @ map snd (case spec_media_reference g of None \<Rightarrow> [] | Some r \<Rightarrow> [r])"] False
    show ?thesis
      by (simp only: step_media[OF False])
         (auto simp: List.map_filter_simps spec_segment_text_def split: option.splits prod.splits)
  qed
qed


lemma example_parse:
  "parseOneBotMessage (MsgArray [text_segment ''hi'', url_segment ''image'' ''https://x/y.png''])
   = \<lparr>pm_text = ''hi'', mediaUrls = [''https://x/y.png''], mediaTypes = [''image'']\<rparr>"
  by code_simp

text \<open>
  C5. For every segment sequence, the text of the result is the concatenation, in order,
  of the texts of the text-typed segments, and the media references are, in order, those
  of the image, record and video segments whose reference field (\<open>url\<close>, or \<open>file\<close>
  when \<open>url\<close> is absent) is a string with a URL scheme, an absolute path or the
  \<open>base64:\<close> pseudo-scheme, \<open>record\<close> becoming "audio"; every other segment contributes
  nothing. The segments \<open>[text "hi", image "https://x/y.png"]\<close> give text "hi" and the
  one reference \<open>("https://x/y.png", "image")\<close>.
\<close>

theorem C5_inbound_codec:
  "pm_text (parseOneBotMessage (MsgArray gs)) = fst (spec_normalize gs)
   \<and> zip (mediaUrls (parseOneBotMessage (MsgArray gs))) (mediaTypes (parseOneBotMessage (MsgArray gs)))
       = snd (spec_normalize gs)
   \<and> length (mediaUrls (parseOneBotMessage (MsgArray gs)))
       = length (mediaTypes (parseOneBotMessage (MsgArray gs)))
   \<and> isLikelyMediaRef v = spec_looks_like_reference v
   \<and> parseOneBotMessage (MsgArray [text_segment ''hi'', url_segment ''image'' ''https://x/y.png''])
       = \<lparr>pm_text = ''hi'', mediaUrls = [''https://x/y.png''], mediaTypes = [''image'']\<rparr>"
proof -
  obtain tp us ts where pl: "parse_loop gs ([], [], []) = (tp, us, ts)"
    by (cases "parse_loop gs ([], [], [])") auto
  from parse_loop_spec[where gs=gs and tp="[]" and us="[]" and ts="[]"] pl
  have a: "concat tp = concat (map spec_segment_text gs)"
    and b: "us = map fst (List.map_filter spec_media_reference gs)"
    and c: "ts = map snd (List.map_filter spec_media_reference gs)"
    by simp_all
  have p: "parseOneBotMessage (MsgArray gs) = \<lparr>pm_text = concat tp, mediaUrls = us, mediaTypes = ts\<rparr>"
    by (simp add: parseOneBotMessage_def pl)
  have 1: "pm_text (parseOneBotMessage (MsgArray gs)) = fst (spec_normalize gs)"
    by (simp add: p a spec_normalize_def)
  have 2: "zip (mediaUrls (parseOneBotMessage (MsgArray gs))) (mediaTypes (parseOneBotMessage (MsgArray gs)))
       = snd (spec_normalize gs)"
    by (simp add: p b c spec_normalize_def zip_map_fst_snd)
  have 3: "length (mediaUrls (parseOneBotMessage (MsgArray gs)))
       = length (mediaTypes (parseOneBotMessage (MsgArray gs)))"
    by (simp add: p b c)
  from 1 2 3 isLikelyMediaRef_spec[of v] example_parse show ?thesis by blast
qed

lemma example_normalize:
  "spec_normalize
     [text_segment ''a'',
      \<lparr>seg_type = Str ''record'', seg_text = Undefined, seg_url = Null, seg_file = Str ''/tmp/a.amr''\<rparr>,
      url_segment ''image'' [],
      url_segment ''image'' ''picture.png'',
      url_segment ''video'' ''base64:AAAA'',
      text_segment ''b'']
   = (''ab'', [(''/tmp/a.amr'', ''audio''), (''base64:AAAA'', ''video'')])"
  by code_simp

theorem C5_inbound_codec_witness:
  "pm_text (parseOneBotMessage (MsgArray
     [text_segment ''a'',
      \<lparr>seg_type = Str ''record'', seg_text = Undefined, seg_url = Null, seg_file = Str ''/tmp/a.amr''\<rparr>,
      url_segment ''image'' [],
      url_segment ''image'' ''picture.png'',
      url_segment ''video'' ''base64:AAAA'',
      text_segment ''b''])) = ''ab''
   \<and> zip (mediaUrls (parseOneBotMessage (MsgArray
     [text_segment ''a'',
      \<lparr>seg_type = Str ''record'', seg_text = Undefined, seg_url = Null, seg_file = Str ''/tmp/a.amr''\<rparr>,
      url_segment ''image'' [],
      url_segment ''image'' ''picture.png'',
      url_segment ''video'' ''base64:AAAA'',
      text_segment ''b''])))
     (mediaTypes (parseOneBotMessage (MsgArray
     [text_segment ''a'',
      \<lparr>seg_type = Str ''record'', seg_text = Undefined, seg_url = Null, seg_file = Str ''/tmp/a.amr''\<rparr>,
      url_segment ''image'' [],
      url_segment ''image'' ''picture.png'',
      url_segment ''video'' ''base64:AAAA'',
      text_segment ''b''])))
     = [(''/tmp/a.amr'', ''audio''), (''base64:AAAA'', ''video'')]"
  using C5_inbound_codec[of
     "[text_segment ''a'',
      \<lparr>seg_type = Str ''record'', seg_text = Undefined, seg_url = Null, seg_file = Str ''/tmp/a.amr''\<rparr>,
      url_segment ''image'' [],
      url_segment ''image'' ''picture.png'',
      url_segment ''video'' ''base64:AAAA'',
      text_segment ''b'']" "[]"]
  by (simp only: example_normalize fst_conv snd_conv)


section \<open>Media classification and the text fallback\<close>


text \<open>
  C6 (as amended). A reference that begins with \<open>base64://\<close>, in any letter case, is
  classified as image with no MIME-detection call. For every other reference the
  detection capability is called once and the kind it leads to is mapped image to
  \<open>image\<close>, audio to \<open>record\<close>, video to \<open>video\<close>, anything else to no classification.
  When no classification results, the media send is exactly one text send of the caption,
  a newline and the raw reference (the raw reference alone when the caption is empty):
  one \<open>send_private_msg\<close> with that single text segment, or the error of an invalid
  target.
\<close>

theorem C6_media_classification:
  "resolveMediaSegmentType h mediaUrl w =
     (if starts_with_ci ''base64://'' mediaUrl then (Inr (Some SegImage), w)
      else
        (case detectMime h (trace w) mediaUrl of
           Inl e \<Rightarrow> Inl e
         | Inr mime \<Rightarrow> Inr (spec_wire_type (mediaKindFromMime h mime)),
         w\<lparr>trace := trace w @ [DetectMime mediaUrl]\<rparr>))
   \<and> (resolveMediaSegmentType h mediaUrl w = (Inr None, w1) \<longrightarrow>
      sendNapcatMedia h to txt mediaUrl w =
        sendNapcatText h to (if txt = [] then mediaUrl else txt @ [CHR 0x0A] @ mediaUrl) w1
      \<and> (case parseUserId to of
            Inl e \<Rightarrow> sendNapcatMedia h to txt mediaUrl w = (Inl e, w1)
          | Inr userId \<Rightarrow>
              trace (snd (sendNapcatMedia h to txt mediaUrl w)) =
                trace w1 @ [OneBotAction ''send_private_msg'' userId
                   [TextSegment (if txt = [] then mediaUrl else txt @ [CHR 0x0A] @ mediaUrl)]]))"
  by (auto simp: resolveMediaSegmentType_def sendNapcatMedia_def sendNapcatText_def ret_def bind_def
      call_detectMime_def spec_wire_type_def send_private_msg_def sendOneBotAction_def throw_def
      resolveMessageId_def buildTextSegment_def
      split: sum.splits prod.splits)

lemma resolve_example:
  "resolveMediaSegmentType host0 ''/tmp/unknown.bin'' world0
   = (Inr None, world0\<lparr>trace := [DetectMime ''/tmp/unknown.bin'']\<rparr>)"
  "parseUserId ''qq:123'' = Inr 123"
  "starts_with_ci ''base64://'' ''BASE64://iVBORw0KGgo=''"
  by code_simp+

theorem C6_media_classification_witness:
  "resolveMediaSegmentType host1 ''BASE64://iVBORw0KGgo='' world0 = (Inr (Some SegImage), world0)
   \<and> trace (snd (sendNapcatMedia host0 ''qq:123'' ''look'' ''/tmp/unknown.bin'' world0))
       = [DetectMime ''/tmp/unknown.bin'',
          OneBotAction ''send_private_msg'' 123 [TextSegment (''look'' @ [CHR 0x0A] @ ''/tmp/unknown.bin'')]]"
proof -
  have r: "resolveMediaSegmentType host0 ''/tmp/unknown.bin'' world0
     = (Inr None, world0\<lparr>trace := [DetectMime ''/tmp/unknown.bin'']\<rparr>)"
    by (rule resolve_example)
  from C6_media_classification[of host1 "''BASE64://iVBORw0KGgo=''" world0]
  have 1: "resolveMediaSegmentType host1 ''BASE64://iVBORw0KGgo='' world0 = (Inr (Some SegImage), world0)"
    by (simp add: resolve_example)
  from C6_media_classification[of host0 "''/tmp/unknown.bin''" world0
      "world0\<lparr>trace := [DetectMime ''/tmp/unknown.bin'']\<rparr>" "''qq:123''" "''look''"] r
  have "case parseUserId ''qq:123'' of
          Inl e \<Rightarrow> sendNapcatMedia host0 ''qq:123'' ''look'' ''/tmp/unknown.bin'' world0
                    = (Inl e, world0\<lparr>trace := [DetectMime ''/tmp/unknown.bin'']\<rparr>)
        | Inr userId \<Rightarrow>
            trace (snd (sendNapcatMedia host0 ''qq:123'' ''look'' ''/tmp/unknown.bin'' world0)) =
              trace (world0\<lparr>trace := [DetectMime ''/tmp/unknown.bin'']\<rparr>) @
              [OneBotAction ''send_private_msg'' userId
                 [TextSegment (if ''look'' = [] then ''/tmp/unknown.bin''
                               else ''look'' @ [CHR 0x0A] @ ''/tmp/unknown.bin'')]]"
    by blast
  then have 2: "trace (snd (sendNapcatMedia host0 ''qq:123'' ''look'' ''/tmp/unknown.bin'' world0))
       = [DetectMime ''/tmp/unknown.bin'',
          OneBotAction ''send_private_msg'' 123 [TextSegment (''look'' @ [CHR 0x0A] @ ''/tmp/unknown.bin'')]]"
    by (simp add: resolve_example(2))
  from 1 2 show ?thesis by blast
qed

text \<open>
  C6 as stated fails: \<open>base64:AAAA\<close> has the \<open>base64:\<close> scheme, yet the detection
  capability is called for it, and a host that detects audio has it sent as \<open>record\<close>.
\<close>

theorem C6_base64_scheme_counterexample:
  "resolveMediaSegmentType host1 ''base64:AAAA'' world0
   = (Inr (Some SegRecord), world0\<lparr>trace := [DetectMime ''base64:AAAA'']\<rparr>)"
  by code_simp


section \<open>Captions in reply delivery\<close>

lemma media_loop_rest:
  "media_loop h to False caption urls = each_media h to (map (\<lambda>u. ([], u)) urls)"
  by (induction urls) simp_all

lemma media_loop_first:
  "media_loop h to True caption (u # urls) = each_media h to ((caption, u) # map (\<lambda>u. ([], u)) urls)"
  by (simp add: media_loop_rest)

text \<open>
  C10. When a reply has media items: if the sanitized caption is non-empty and longer
  than the chunk limit, \<open>deliver\<close> is the chunked text send of the caption followed by
  the send of every media item with an empty caption; otherwise it is the send of the
  first media item with the caption followed by the sends of the others with empty text.
  Each step runs only if the one before it did not throw.
\<close>

theorem C10_caption_placement:
  assumes "reply_media payload \<noteq> []"
  shows "deliver h textLimit chunkMode to payload =
     (if reply_caption h payload \<noteq> [] \<and> length (reply_caption h payload) > textLimit then
        bind (sendTextChunks h textLimit chunkMode to (reply_caption h payload))
          (\<lambda>u. each_media h to (map (\<lambda>u. ([], u)) (reply_media payload)))
      else each_media h to
             ((reply_caption h payload, hd (reply_media payload))
              # map (\<lambda>u. ([], u)) (tl (reply_media payload))))"
proof -
  have m: "(case rp_mediaUrls payload of Some us \<Rightarrow> us
            | None \<Rightarrow> if truthy (rp_mediaUrl payload) then [the (rp_mediaUrl payload)] else [])
           = reply_media payload"
    by (simp add: reply_media_def truthy_def split: option.splits)
  obtain u rest where ur: "reply_media payload = u # rest"
    using assms by (cases "reply_media payload") auto
  have d: "deliver h textLimit chunkMode to payload =
     (if reply_caption h payload \<noteq> [] \<and> length (reply_caption h payload) > textLimit then
        bind (sendTextChunks h textLimit chunkMode to (reply_caption h payload))
          (\<lambda>u. media_loop h to True [] (reply_media payload))
      else media_loop h to True (reply_caption h payload) (reply_media payload))"
    unfolding deliver_def Let_def m reply_caption_def using ur by simp
  show ?thesis
    unfolding d ur by (simp only: media_loop_first list.sel list.map)
qed

lemma reply1_parts:
  "reply_media reply1 = [''/a.amr'', ''/b.amr'']"
  "reply_caption host1 reply1 = ''hello world''"
  by code_simp+

lemma reply1_over_limit:
  "bind (sendTextChunks host1 5 ByLength ''qq:123'' ''hello world'')
     (\<lambda>u. each_media host1 ''qq:123'' [([], ''/a.amr''), ([], ''/b.amr'')]) world0
   = (Inr (),
      world0\<lparr>trace :=
        [OneBotAction ''send_private_msg'' 123 [TextSegment ''hello''], StatusSink LastOutboundAt,
         OneBotAction ''send_private_msg'' 123 [TextSegment '' worl''], StatusSink LastOutboundAt,
         OneBotAction ''send_private_msg'' 123 [TextSegment ''d''], StatusSink LastOutboundAt,
         DetectMime ''/a.amr'',
         OneBotAction ''send_private_msg'' 123 [MediaSegment SegRecord ''/a.amr''],
         StatusSink LastOutboundAt,
         DetectMime ''/b.amr'',
         OneBotAction ''send_private_msg'' 123 [MediaSegment SegRecord ''/b.amr''],
         StatusSink LastOutboundAt]\<rparr>)"
  by code_simp

lemma reply1_within_limit:
  "each_media host1 ''qq:123'' [(''hello world'', ''/a.amr''), ([], ''/b.amr'')] world0
   = (Inr (),
      world0\<lparr>trace :=
        [DetectMime ''/a.amr'',
         OneBotAction ''send_private_msg'' 123
           [TextSegment ''hello world'', MediaSegment SegRecord ''/a.amr''],
         StatusSink LastOutboundAt,
         DetectMime ''/b.amr'',
         OneBotAction ''send_private_msg'' 123 [MediaSegment SegRecord ''/b.amr''],
         StatusSink LastOutboundAt]\<rparr>)"
  by code_simp

theorem C10_caption_placement_witness:
  "deliver host1 5 ByLength ''qq:123'' reply1 world0
   = (Inr (),
      world0\<lparr>trace :=
        [OneBotAction ''send_private_msg'' 123 [TextSegment ''hello''], StatusSink LastOutboundAt,
         OneBotAction ''send_private_msg'' 123 [TextSegment '' worl''], StatusSink LastOutboundAt,
         OneBotAction ''send_private_msg'' 123 [TextSegment ''d''], StatusSink LastOutboundAt,
         DetectMime ''/a.amr'',
         OneBotAction ''send_private_msg'' 123 [MediaSegment SegRecord ''/a.amr''],
         StatusSink LastOutboundAt,
         DetectMime ''/b.amr'',
         OneBotAction ''send_private_msg'' 123 [MediaSegment SegRecord ''/b.amr''],
         StatusSink LastOutboundAt]\<rparr>)
   \<and> deliver host1 50 ByLength ''qq:123'' reply1 world0
   = (Inr (),
      world0\<lparr>trace :=
        [DetectMime ''/a.amr'',
         OneBotAction ''send_private_msg'' 123
           [TextSegment ''hello world'', MediaSegment SegRecord ''/a.amr''],
         StatusSink LastOutboundAt,
         DetectMime ''/b.amr'',
         OneBotAction ''send_private_msg'' 123 [MediaSegment SegRecord ''/b.amr''],
         StatusSink LastOutboundAt]\<rparr>)"
  using C10_caption_placement[of reply1 host1 5 ByLength "''qq:123''"]
    C10_caption_placement[of reply1 host1 50 ByLength "''qq:123''"]
  by (simp add: reply1_parts reply1_over_limit reply1_within_limit del: each_media.simps)


section \<open>The access policy\<close>


lemma set_js_Set: "set (js_Set xs) = set xs"
  by (simp add: js_Set_def)

lemma set_normalizeAllowList: "set (normalizeAllowList es) = normalizeAllowEntry ` set es - {[]}"
  by (auto simp: normalizeAllowList_def set_js_Set)

lemma set_effectiveAllowFrom:
  "set (effectiveAllowFrom acct stored) =
     normalizeAllowEntry ` (set (case allowFrom acct of None \<Rightarrow> [] | Some es \<Rightarrow> es) \<union> set stored) - {[]}"
  by (auto simp: effectiveAllowFrom_def set_js_Set set_normalizeAllowList)

lemma dispatch_trace:
  "dispatch h c w =
     (Inr (), w\<lparr>trace := trace w @ [RecordInboundSession c, StatusSink LastInboundAt, DispatchReply c]\<rparr>)"
  by (simp add: dispatch_def bind_def emit_def)

lemma handle_filtered:
  assumes "private_message_from ev sid"
  shows "handlePrivateMessage h acct ev w =
     (if dmPolicy acct = Some Disabled then (Inr (), w\<lparr>trace := trace w @ prelude ev sid\<rparr>)
      else if dmPolicy acct \<noteq> None \<and> dmPolicy acct \<noteq> Some OpenPolicy
              \<and> \<not> isSenderAllowed sid (effectiveAllowFrom acct (stored_entries w)) then
        (if dmPolicy acct = Some Pairing
         then pairing_flow h sid (senderName_of ev sid) (w\<lparr>trace := trace w @ prelude ev sid\<rparr>)
         else (Inr (), w\<lparr>trace := trace w @ prelude ev sid\<rparr>))
      else dispatch h
             (build_context h ev sid (parseOneBotMessage (ev_message ev))
                (dmPolicy acct = None \<or> dmPolicy acct = Some OpenPolicy
                 \<or> isSenderAllowed sid (effectiveAllowFrom acct (stored_entries w))))
             (w\<lparr>trace := trace w @ prelude ev sid\<rparr>))"
proof -
  have f: "string_or_empty (ev_post_type ev) = ''message''"
    "string_or_empty (ev_message_type ev) = ''private''"
    "id_string (ev_user_id ev) = Some sid" "id_string (ev_self_id ev) \<noteq> Some sid"
    using assms by (simp_all add: private_message_from_def string_or_empty_def)
  show ?thesis
    unfolding handlePrivateMessage_def f(1,2,3)
    using f(4)
    by (cases "dmPolicy acct")
       (auto simp: bind_def emits_def readAllowFromStore_def ret_def prelude_def stored_entries_def Let_def
          split: option.splits dm_policy.splits)
qed





lemma sendNapcatText_world:
  "case sendNapcatText h target body w of
     (r, w') \<Rightarrow>
       pairing_requests w' = pairing_requests w \<and> allowFromStore w' = allowFromStore w
     \<and> trace w' = trace w @
          (case parseUserId target of Inl e \<Rightarrow> []
           | Inr u \<Rightarrow> [OneBotAction ''send_private_msg'' u [TextSegment body]])"
  by (auto simp: sendNapcatText_def send_private_msg_def sendOneBotAction_def bind_def throw_def ret_def
      resolveMessageId_def buildTextSegment_def split: sum.splits prod.splits)

lemma prelude_quiet: "filter is_dispatch (prelude ev sid) = []" "filter is_action (prelude ev sid) = []"
  by (simp_all add: prelude_def log_inbound_media_def)



lemma allowlist_example:
  "private_message_from (event_from (Num ''456'') ''hi'') ''456''"
  "dmPolicy (account_with Allowlist [Str ''123'']) = Some Allowlist"
  "\<not> isSenderAllowed ''456'' (effectiveAllowFrom (account_with Allowlist [Str ''123'']) (stored_entries world0))"
  "prelude (event_from (Num ''456'') ''hi'') ''456'' = [ReadAllowFromStore]"
  "trace world0 = []"
  by code_simp+


section \<open>The allowlist policy\<close>

lemma allow_examples:
  "isSenderAllowed ''qq:123'' (effectiveAllowFrom (account_with Allowlist [Str ''123'']) [])"
  "\<not> isSenderAllowed ''456'' (effectiveAllowFrom (account_with Allowlist [Str ''123'']) [])"
  by code_simp+

text \<open>
  C7 (as amended). Under the allowlist policy, for a private message from a sender, the
  effective allow-list holds the normalized, non-empty entries of the configured list and
  of the persisted store; the sender is authorized iff that list contains \<open>*\<close> or the
  sender's normalized identifier (trimmed, a leading \<open>qq:\<close> or \<open>user:\<close> removed). An
  authorized sender's message is recorded and dispatched; an unauthorized sender's
  message is dropped after the store read: no reply, no pairing request, no dispatch.
  With the configured list \<open>["123"]\<close> and an empty store, \<open>qq:123\<close> is authorized and
  \<open>456\<close> is not.
\<close>

theorem C7_allowlist_authorization:
  assumes "private_message_from ev sid" and "dmPolicy acct = Some Allowlist"
  shows "set (effectiveAllowFrom acct (stored_entries w)) =
           normalizeAllowEntry `
             (set (case allowFrom acct of None \<Rightarrow> [] | Some es \<Rightarrow> es) \<union> set (stored_entries w)) - {[]}
       \<and> isSenderAllowed sid (effectiveAllowFrom acct (stored_entries w)) =
           (''*'' \<in> set (effectiveAllowFrom acct (stored_entries w))
            \<or> normalizeAllowEntry (Str sid) \<in> set (effectiveAllowFrom acct (stored_entries w)))
       \<and> handlePrivateMessage h acct ev w =
           (if isSenderAllowed sid (effectiveAllowFrom acct (stored_entries w)) then
              (Inr (),
               w\<lparr>trace := trace w @ prelude ev sid @
                  [RecordInboundSession (build_context h ev sid (parseOneBotMessage (ev_message ev)) True),
                   StatusSink LastInboundAt,
                   DispatchReply (build_context h ev sid (parseOneBotMessage (ev_message ev)) True)]\<rparr>)
            else (Inr (), w\<lparr>trace := trace w @ prelude ev sid\<rparr>))
       \<and> isSenderAllowed ''qq:123'' (effectiveAllowFrom (account_with Allowlist [Str ''123'']) [])
       \<and> \<not> isSenderAllowed ''456'' (effectiveAllowFrom (account_with Allowlist [Str ''123'']) [])"
proof -
  have 1: "set (effectiveAllowFrom acct (stored_entries w)) =
           normalizeAllowEntry `
             (set (case allowFrom acct of None \<Rightarrow> [] | Some es \<Rightarrow> es) \<union> set (stored_entries w)) - {[]}"
    by (rule set_effectiveAllowFrom)
  have 2: "isSenderAllowed sid (effectiveAllowFrom acct (stored_entries w)) =
           (''*'' \<in> set (effectiveAllowFrom acct (stored_entries w))
            \<or> normalizeAllowEntry (Str sid) \<in> set (effectiveAllowFrom acct (stored_entries w)))"
    by (simp add: isSenderAllowed_def Let_def)
  have 3: "handlePrivateMessage h acct ev w =
           (if isSenderAllowed sid (effectiveAllowFrom acct (stored_entries w)) then
              (Inr (),
               w\<lparr>trace := trace w @ prelude ev sid @
                  [RecordInboundSession (build_context h ev sid (parseOneBotMessage (ev_message ev)) True),
                   StatusSink LastInboundAt,
                   DispatchReply (build_context h ev sid (parseOneBotMessage (ev_message ev)) True)]\<rparr>)
            else (Inr (), w\<lparr>trace := trace w @ prelude ev sid\<rparr>))"
    by (simp add: handle_filtered[OF assms(1)] assms(2) dispatch_trace)
  from 1 2 3 allow_examples show ?thesis by blast
qed

theorem C7_allowlist_authorization_witness:
  "handlePrivateMessage host0 (account_with Allowlist [Str ''123'']) (event_from (Num ''456'') ''hi'') world0
   = (Inr (), world0\<lparr>trace := [ReadAllowFromStore]\<rparr>)"
  using C7_allowlist_authorization[OF allowlist_example(1,2), of world0 host0,
      THEN conjunct2, THEN conjunct2, THEN conjunct1]
  by (simp add: allowlist_example(3-5))

lemma wildcard_example:
  "isSenderAllowed ''456'' (effectiveAllowFrom (account_with Allowlist [Str ''*'']) [])"
  "normalizeAllowEntry (Str ''456'') \<notin> set (effectiveAllowFrom (account_with Allowlist [Str ''*'']) [])"
  "effectiveAllowFrom (account_with Allowlist [Str ''*'']) [] = [''*'']"
  "normalizeAllowEntry (Str ''456'') = ''456''"
  by code_simp+

text \<open>
  C7 as stated fails: with the configured list \<open>["*"]\<close> the sender \<open>456\<close> is authorized
  although its identifier is not in the effective allow-list.
\<close>

theorem C7_wildcard_counterexample:
  "isSenderAllowed ''456'' (effectiveAllowFrom (account_with Allowlist [Str ''*'']) (stored_entries world0))
   \<and> normalizeAllowEntry (Str ''456'')
       \<notin> set (effectiveAllowFrom (account_with Allowlist [Str ''*'']) (stored_entries world0))"
proof -
  have "stored_entries world0 = []" by (simp add: world0_def stored_entries_def)
  with wildcard_example(1,2) show ?thesis by simp
qed


section \<open>The wildcard entry\<close>

text \<open>
  C9. If the effective allow-list contains \<open>*\<close>, then under the allowlist and the
  pairing policy every sender of a private message is authorized, whatever its
  identifier, and the message is recorded and dispatched with its commands authorized.
\<close>

theorem C9_wildcard_allows_everyone:
  assumes "private_message_from ev sid"
    and "dmPolicy acct = Some Allowlist \<or> dmPolicy acct = Some Pairing"
    and "''*'' \<in> set (effectiveAllowFrom acct (stored_entries w))"
  shows "isSenderAllowed sid (effectiveAllowFrom acct (stored_entries w))
       \<and> handlePrivateMessage h acct ev w =
           (Inr (),
            w\<lparr>trace := trace w @ prelude ev sid @
               [RecordInboundSession (build_context h ev sid (parseOneBotMessage (ev_message ev)) True),
                StatusSink LastInboundAt,
                DispatchReply (build_context h ev sid (parseOneBotMessage (ev_message ev)) True)]\<rparr>)"
proof -
  have a: "isSenderAllowed sid (effectiveAllowFrom acct (stored_entries w))"
    using assms(3) by (simp add: isSenderAllowed_def)
  with assms(2) show ?thesis
    by (auto simp: handle_filtered[OF assms(1)] dispatch_trace)
qed

lemma wildcard_handler_example:
  "dmPolicy (account_with Pairing [Str ''123'', Str '' QQ:*'']) = Some Allowlist
   \<or> dmPolicy (account_with Pairing [Str ''123'', Str '' QQ:*'']) = Some Pairing"
  "''*'' \<in> set (effectiveAllowFrom (account_with Pairing [Str ''123'', Str '' QQ:*'']) (stored_entries world0))"
  "build_context host0 (event_from (Num ''456'') ''hi'') ''456''
     (parseOneBotMessage (ev_message (event_from (Num ''456'') ''hi''))) True
   = \<lparr>Body = ''hi'', RawBody = ''hi'', CommandBody = ''hi'', From = ''qq:456'', To = ''qq:456'',
      SenderName = ''Ann'', SenderId = ''456'', MessageSid = Some ''7'', CommandAuthorized = True,
      MediaUrl = None, MediaUrls = None, MediaType = None, MediaTypes = None\<rparr>"
  by code_simp+

theorem C9_wildcard_allows_everyone_witness:
  "handlePrivateMessage host0 (account_with Pairing [Str ''123'', Str '' QQ:*''])
     (event_from (Num ''456'') ''hi'') world0
   = (Inr (),
      world0\<lparr>trace :=
        [ReadAllowFromStore,
         RecordInboundSession
           \<lparr>Body = ''hi'', RawBody = ''hi'', CommandBody = ''hi'', From = ''qq:456'', To = ''qq:456'',
            SenderName = ''Ann'', SenderId = ''456'', MessageSid = Some ''7'', CommandAuthorized = True,
            MediaUrl = None, MediaUrls = None, MediaType = None, MediaTypes = None\<rparr>,
         StatusSink LastInboundAt,
         DispatchReply
           \<lparr>Body = ''hi'', RawBody = ''hi'', CommandBody = ''hi'', From = ''qq:456'', To = ''qq:456'',
            SenderName = ''Ann'', SenderId = ''456'', MessageSid = Some ''7'', CommandAuthorized = True,
            MediaUrl = None, MediaUrls = None, MediaType = None, MediaTypes = None\<rparr>]\<rparr>)"
  using C9_wildcard_allows_everyone[OF allowlist_example(1) wildcard_handler_example(1,2), of host0,
      THEN conjunct2]
  by (simp add: allowlist_example(4,5) wildcard_handler_example(3))


section \<open>The pairing policy\<close>

lemma pairing_handle:
  assumes "private_message_from ev sid" and "dmPolicy acct = Some Pairing"
    and "\<not> isSenderAllowed sid (effectiveAllowFrom acct (stored_entries w))"
  shows "handlePrivateMessage h acct ev w =
     (if sid \<in> set (pairing_requests w) then (Inr (), after_upsert ev sid w)
      else bind (sendNapcatText h (formatTarget sid)
                   (buildPairingReply h (''Your QQ: '' @ sid) (pairingCode h sid)))
             (\<lambda>sent. emit (StatusSink LastOutboundAt)) (after_upsert ev sid w))"
  using assms(2,3)
  by (simp add: handle_filtered[OF assms(1)] pairing_flow_def upsertPairingRequest_def bind_def ret_def
      after_upsert_def)


lemma after_upsert_fields:
  "allowFromStore (after_upsert ev sid w) = allowFromStore w"
  "sid \<in> set (pairing_requests (after_upsert ev sid w))"
  "trace (after_upsert ev sid w) =
     trace w @ prelude ev sid @ [UpsertPairingRequest sid (senderName_of ev sid)]"
  by (simp_all add: after_upsert_def)

lemma pairing_result:
  assumes "private_message_from ev sid" and "dmPolicy acct = Some Pairing"
    and "\<not> isSenderAllowed sid (effectiveAllowFrom acct (stored_entries w))"
  shows "allowFromStore (snd (handlePrivateMessage h acct ev w)) = allowFromStore w"
    and "sid \<in> set (pairing_requests (snd (handlePrivateMessage h acct ev w)))"
    and "trace (snd (handlePrivateMessage h acct ev w)) =
           trace w @ prelude ev sid @ [UpsertPairingRequest sid (senderName_of ev sid)] @
           (if sid \<in> set (pairing_requests w) then []
            else (case parseUserId (formatTarget sid) of
                    Inl e \<Rightarrow> []
                  | Inr u \<Rightarrow>
                      OneBotAction ''send_private_msg'' u
                        [TextSegment (buildPairingReply h (''Your QQ: '' @ sid) (pairingCode h sid))]
                      # (if fst (handlePrivateMessage h acct ev w) = Inr ()
                         then [StatusSink LastOutboundAt] else [])))"
proof -
  let ?w1 = "after_upsert ev sid w"
  let ?reply = "buildPairingReply h (''Your QQ: '' @ sid) (pairingCode h sid)"
  obtain r w' where s: "sendNapcatText h (formatTarget sid) ?reply ?w1 = (r, w')"
    by (cases "sendNapcatText h (formatTarget sid) ?reply ?w1")
  from sendNapcatText_world[where h=h and target="formatTarget sid" and body="?reply" and w="?w1"] s
  have w': "pairing_requests w' = pairing_requests ?w1" "allowFromStore w' = allowFromStore ?w1"
    "trace w' = trace ?w1 @
          (case parseUserId (formatTarget sid) of Inl e \<Rightarrow> []
           | Inr u \<Rightarrow> [OneBotAction ''send_private_msg'' u [TextSegment ?reply]])"
    by simp_all
  have thrown: "parseUserId (formatTarget sid) = Inl e \<Longrightarrow> r = Inl e" for e
    using s by (simp add: sendNapcatText_def throw_def)
  note h = pairing_handle[OF assms, where h=h]
  show "allowFromStore (snd (handlePrivateMessage h acct ev w)) = allowFromStore w"
    using w'(2) s by (cases r) (simp_all add: h bind_def emit_def after_upsert_fields)
  show "sid \<in> set (pairing_requests (snd (handlePrivateMessage h acct ev w)))"
    using w'(1) s by (cases r) (simp_all add: h bind_def emit_def after_upsert_fields)
  show "trace (snd (handlePrivateMessage h acct ev w)) =
           trace w @ prelude ev sid @ [UpsertPairingRequest sid (senderName_of ev sid)] @
           (if sid \<in> set (pairing_requests w) then []
            else (case parseUserId (formatTarget sid) of
                    Inl e \<Rightarrow> []
                  | Inr u \<Rightarrow>
                      OneBotAction ''send_private_msg'' u [TextSegment ?reply]
                      # (if fst (handlePrivateMessage h acct ev w) = Inr ()
                         then [StatusSink LastOutboundAt] else [])))"
    using w'(3) s thrown
    by (cases r; cases "parseUserId (formatTarget sid)")
       (auto simp: h bind_def emit_def after_upsert_fields)
qed


text \<open>
  C8. Under the pairing policy, a private message from a sender that is not allowed
  always upserts a pairing request for that sender; the pairing-code reply is sent (one
  text send to the sender, which issues one \<open>send_private_msg\<close> unless the identifier is
  no QQ number and the send throws) exactly when the request is newly created; nothing
  is recorded or dispatched. A second message from the same sender, the allow-list
  store unchanged, upserts again, finds the request present and sends nothing.
\<close>

theorem C8_pairing_reply_once:
  assumes "private_message_from ev sid" and "dmPolicy acct = Some Pairing"
    and "\<not> isSenderAllowed sid (effectiveAllowFrom acct (stored_entries w))"
  shows "handlePrivateMessage h acct ev w =
           (if sid \<in> set (pairing_requests w) then (Inr (), after_upsert ev sid w)
            else bind (sendNapcatText h (formatTarget sid)
                         (buildPairingReply h (''Your QQ: '' @ sid) (pairingCode h sid)))
                   (\<lambda>sent. emit (StatusSink LastOutboundAt)) (after_upsert ev sid w))
       \<and> filter is_dispatch (trace (snd (handlePrivateMessage h acct ev w))) = filter is_dispatch (trace w)
       \<and> filter is_action (trace (snd (handlePrivateMessage h acct ev w))) =
           filter is_action (trace w) @
           (if sid \<in> set (pairing_requests w) then []
            else (case parseUserId (formatTarget sid) of
                    Inl e \<Rightarrow> []
                  | Inr u \<Rightarrow>
                      [OneBotAction ''send_private_msg'' u
                         [TextSegment (buildPairingReply h (''Your QQ: '' @ sid) (pairingCode h sid))]]))
       \<and> handlePrivateMessage h acct ev (snd (handlePrivateMessage h acct ev w)) =
           (Inr (), after_upsert ev sid (snd (handlePrivateMessage h acct ev w)))
       \<and> filter is_action (trace (after_upsert ev sid (snd (handlePrivateMessage h acct ev w)))) =
           filter is_action (trace (snd (handlePrivateMessage h acct ev w)))
       \<and> filter is_dispatch (trace (after_upsert ev sid (snd (handlePrivateMessage h acct ev w)))) =
           filter is_dispatch (trace w)"
proof -
  let ?w2 = "snd (handlePrivateMessage h acct ev w)"
  note r = pairing_result[OF assms, where h=h]
  have 1: "handlePrivateMessage h acct ev w =
           (if sid \<in> set (pairing_requests w) then (Inr (), after_upsert ev sid w)
            else bind (sendNapcatText h (formatTarget sid)
                         (buildPairingReply h (''Your QQ: '' @ sid) (pairingCode h sid)))
                   (\<lambda>sent. emit (StatusSink LastOutboundAt)) (after_upsert ev sid w))"
    by (rule pairing_handle[OF assms])
  have 2: "filter is_dispatch (trace ?w2) = filter is_dispatch (trace w)"
    by (simp add: r(3) prelude_quiet split: sum.splits)
  have 3: "filter is_action (trace ?w2) =
           filter is_action (trace w) @
           (if sid \<in> set (pairing_requests w) then []
            else (case parseUserId (formatTarget sid) of
                    Inl e \<Rightarrow> []
                  | Inr u \<Rightarrow>
                      [OneBotAction ''send_private_msg'' u
                         [TextSegment (buildPairingReply h (''Your QQ: '' @ sid) (pairingCode h sid))]]))"
    by (simp add: r(3) prelude_quiet split: sum.splits)
  have st: "stored_entries ?w2 = stored_entries w"
    by (simp add: stored_entries_def r(1))
  have na: "\<not> isSenderAllowed sid (effectiveAllowFrom acct (stored_entries ?w2))"
    using assms(3) by (simp add: st)
  have 4: "handlePrivateMessage h acct ev ?w2 = (Inr (), after_upsert ev sid ?w2)"
    using pairing_handle[OF assms(1,2) na, where h=h] r(2) by simp
  have 5: "filter is_action (trace (after_upsert ev sid ?w2)) = filter is_action (trace ?w2)"
    by (simp add: after_upsert_fields prelude_quiet)
  have 6: "filter is_dispatch (trace (after_upsert ev sid ?w2)) = filter is_dispatch (trace w)"
    by (simp add: after_upsert_fields prelude_quiet 2)
  from 1 2 3 4 5 6 show ?thesis by blast
qed

lemma pairing_example:
  "private_message_from (event_from (Num ''456'') ''hi'') ''456''"
  "dmPolicy (account_with Pairing [Str ''123'']) = Some Pairing"
  "\<not> isSenderAllowed ''456'' (effectiveAllowFrom (account_with Pairing [Str ''123'']) (stored_entries world0))"
  "parseUserId (formatTarget ''456'') = Inr 456"
  "buildPairingReply host0 ''Your QQ: 456'' (pairingCode host0 ''456'') = ''Your QQ: 456 code K7Q2''"
  "pairing_requests world0 = []" "trace world0 = []"
  by code_simp+

theorem C8_pairing_reply_once_witness:
  "filter is_action (trace (snd (handlePrivateMessage host0 (account_with Pairing [Str ''123''])
      (event_from (Num ''456'') ''hi'') world0)))
     = [OneBotAction ''send_private_msg'' 456 [TextSegment ''Your QQ: 456 code K7Q2'']]
   \<and> filter is_action (trace (snd (handlePrivateMessage host0 (account_with Pairing [Str ''123''])
      (event_from (Num ''456'') ''hi'')
        (snd (handlePrivateMessage host0 (account_with Pairing [Str ''123''])
           (event_from (Num ''456'') ''hi'') world0)))))
     = [OneBotAction ''send_private_msg'' 456 [TextSegment ''Your QQ: 456 code K7Q2'']]
   \<and> filter is_dispatch (trace (snd (handlePrivateMessage host0 (account_with Pairing [Str ''123''])
      (event_from (Num ''456'') ''hi'')
        (snd (handlePrivateMessage host0 (account_with Pairing [Str ''123''])
           (event_from (Num ''456'') ''hi'') world0))))) = []"
proof -
  let ?acct = "account_with Pairing [Str ''123'']"
  let ?ev = "event_from (Num ''456'') ''hi''"
  let ?w2 = "snd (handlePrivateMessage host0 ?acct ?ev world0)"
  note t = C8_pairing_reply_once[OF pairing_example(1,2,3), of host0]
  have a: "filter is_action (trace ?w2)
      = [OneBotAction ''send_private_msg'' 456 [TextSegment ''Your QQ: 456 code K7Q2'']]"
    using t[THEN conjunct2, THEN conjunct2, THEN conjunct1]
    by (simp add: pairing_example(4-7))
  have b: "handlePrivateMessage host0 ?acct ?ev ?w2 = (Inr (), after_upsert ?ev ''456'' ?w2)"
    using t[THEN conjunct2, THEN conjunct2, THEN conjunct2, THEN conjunct1] .
  have c: "filter is_action (trace (after_upsert ?ev ''456'' ?w2)) = filter is_action (trace ?w2)"
    using t[THEN conjunct2, THEN conjunct2, THEN conjunct2, THEN conjunct2, THEN conjunct1] .
  have d: "filter is_dispatch (trace (after_upsert ?ev ''456'' ?w2)) = []"
    using t[THEN conjunct2, THEN conjunct2, THEN conjunct2, THEN conjunct2, THEN conjunct2]
    by (simp add: pairing_example(7))
  show ?thesis
    unfolding b snd_conv c d a by simp
qed


end
